theory Spec2Isabelle
  imports Main
begin

section \<open>The parsing front end, as data\<close>

text \<open>
  \<^verbatim>\<open>staticCodeChecker.ts\<close> never reads source text: it asks ts-morph for the
  identifier nodes of each source file, for their parents, ancestors, positions and
  definitions. The embedding takes the answers of the front end as data: a source file
  is a record of what the getters return, and the functions below are the two methods
  of \<^verbatim>\<open>StaticCodeChecker\<close> over that data.
\<close>

datatype SyntaxKind =
    ClassDeclaration | InterfaceDeclaration | FunctionDeclaration
  | MethodDeclaration | PropertyDeclaration | VariableDeclaration
  | MethodSignature | PropertySignature
  | NewExpression | PropertyAccessExpression | CallExpression | TypeReference
  | ImportSpecifier | ImportClause | Parameter | OtherKind

text \<open>
  The string literals used as symbol types. \<^verbatim>\<open>ReferenceResult['type']\<close> is declared as
  \<^verbatim>\<open>'function' | 'interface' | 'class' | 'variable'\<close>; \<^verbatim>\<open>checkFile\<close> also writes
  \<^verbatim>\<open>'method'\<close> and \<^verbatim>\<open>'property'\<close> into its entries, whose type is \<^verbatim>\<open>string\<close>.
\<close>

datatype SymbolType = Function | Interface | Class | Variable | Method | Property

datatype error = SymbolNotFound string | FileNotInWorkspace string

text \<open>The node returned by \<^verbatim>\<open>def.getDeclarationNode()\<close>: its file, \<^verbatim>\<open>getPos()\<close>, kind.\<close>

record DeclarationNode =
  declFilePath :: string
  declPos :: nat
  declKind :: SyntaxKind

text \<open>
  The parent of an identifier: its kind, the kind of its own parent
  (\<^verbatim>\<open>parent.getParent()\<close>), and the module specifier of its first
  \<^verbatim>\<open>ImportDeclaration\<close> ancestor
  (\<^verbatim>\<open>parent.getFirstAncestorByKind(SyntaxKind.ImportDeclaration)\<close>), if any.
\<close>

record ParentNode =
  kind :: SyntaxKind
  parentKind :: "SyntaxKind option"
  importDeclaration :: "string option"

text \<open>
  An identifier node. \<open>getLine\<close> and \<open>getColumn\<close> are
  \<^verbatim>\<open>getLineAndColumnAtPos(node.getStart())\<close>; \<open>getDefinitions\<close> lists
  \<^verbatim>\<open>def.getDeclarationNode()\<close> for each definition (\<open>None\<close> when it is undefined);
  the \<open>containing\<close> fields are \<^verbatim>\<open>getFirstAncestorByKind\<close> followed by
  \<^verbatim>\<open>getName()\<close>, which may be undefined for a function or a class.
\<close>

record Identifier =
  getText :: string
  getPos :: nat
  getLine :: nat
  getColumn :: nat
  getParent :: "ParentNode option"
  getDefinitions :: "DeclarationNode option list"
  containingFunction :: "string option option"
  containingClass :: "string option option"
  containingInterface :: "string option"
  containingMethod :: "string option"

record ClassDecl =
  className :: "string option"
  getMethods :: "string list"
  getProperties :: "string list"

text \<open>
  A source file: its path, \<^verbatim>\<open>getDescendantsOfKind(SyntaxKind.Identifier)\<close> in
  document order, and the names of the declarations that \<^verbatim>\<open>checkFile\<close> enumerates.
\<close>

record SourceFile =
  getFilePath :: string
  identifiers :: "Identifier list"
  getFunctions :: "string option list"
  getClasses :: "ClassDecl list"
  getInterfaces :: "string list"
  getVariableDeclarations :: "string list"

text \<open>
  Node's \<^verbatim>\<open>path\<close> module and \<^verbatim>\<open>process.cwd()\<close> are the platform's, not the
  repository's: every function takes them as a parameter.
\<close>

record PathApi =
  processCwd :: string
  pathDirname :: "string \<Rightarrow> string"
  pathResolve :: "string \<Rightarrow> string \<Rightarrow> string"
  pathJoin :: "string \<Rightarrow> string \<Rightarrow> string"
  pathRelative :: "string \<Rightarrow> string \<Rightarrow> string"

section \<open>Strings\<close>

definition endsWith :: "string \<Rightarrow> string \<Rightarrow> bool" where
  "endsWith s t \<longleftrightarrow> length t \<le> length s \<and> drop (length s - length t) s = t"

definition startsWith :: "string \<Rightarrow> string \<Rightarrow> bool" where
  "startsWith s t \<longleftrightarrow> take (length t) s = t"

text \<open>A template literal prints an undefined name as \<^verbatim>\<open>undefined\<close>.\<close>

definition templateString :: "string option \<Rightarrow> string" where
  "templateString v = (case v of None \<Rightarrow> ''undefined'' | Some s \<Rightarrow> s)"

definition digitChar :: "nat \<Rightarrow> char" where
  "digitChar d = ''0123456789'' ! d"

fun showNat :: "nat \<Rightarrow> string" where
  "showNat n = (if n < 10 then [digitChar n] else showNat (n div 10) @ [digitChar (n mod 10)])"

declare showNat.simps [simp del]

section \<open>analyzeSymbol\<close>

record Location =
  filePath :: string
  line :: nat
  column :: nat
  context' :: string

record ReferenceResult =
  symbol :: string
  type' :: SymbolType
  definition' :: Location
  references :: "Location list"
  isReferenced :: bool

subsection \<open>Finding the definition (lines 75 to 122)\<close>

definition isDeclarationParent :: "ParentNode \<Rightarrow> bool" where
  "isDeclarationParent parent \<longleftrightarrow>
     kind parent = ClassDeclaration \<or>
     kind parent = InterfaceDeclaration \<or>
     kind parent = FunctionDeclaration \<or>
     kind parent = MethodDeclaration \<or>
     kind parent = PropertyDeclaration"

text \<open>
  The inner loop over the nodes of one file whose text is the symbol name. The state is
  \<^verbatim>\<open>definitionNode\<close> and \<^verbatim>\<open>symbolType\<close>; the loop breaks at the first accepted node.
\<close>

fun findInNodes :: "Identifier list \<Rightarrow> SymbolType \<Rightarrow> Identifier option \<times> SymbolType" where
  "findInNodes [] symbolType = (None, symbolType)"
| "findInNodes (node # nodes) symbolType =
     (case getParent node of
        None \<Rightarrow> findInNodes nodes symbolType
      | Some parent \<Rightarrow>
          if isDeclarationParent parent
          then (Some node,
                if kind parent = ClassDeclaration then Class
                else if kind parent = InterfaceDeclaration then Interface
                else if kind parent = FunctionDeclaration then Function
                else if kind parent = VariableDeclaration then Variable
                else symbolType)
          else findInNodes nodes symbolType)"

text \<open>The outer loop over the source files; \<^verbatim>\<open>.d.ts\<close> files are skipped.\<close>

fun findDefinition ::
  "SourceFile list \<Rightarrow> string \<Rightarrow> SymbolType \<Rightarrow> (SourceFile \<times> Identifier) option \<times> SymbolType" where
  "findDefinition [] symbolName symbolType = (None, symbolType)"
| "findDefinition (sourceFile # sourceFiles) symbolName symbolType =
     (if endsWith (getFilePath sourceFile) ''.d.ts''
      then findDefinition sourceFiles symbolName symbolType
      else
        case findInNodes
               (filter (\<lambda>node. getText node = symbolName) (identifiers sourceFile)) symbolType of
          (Some node, symbolType') \<Rightarrow> (Some (sourceFile, node), symbolType')
        | (None, symbolType') \<Rightarrow> findDefinition sourceFiles symbolName symbolType')"

text \<open>The second classification, after the definition is known (lines 116 to 122).\<close>

definition classifyDefinition :: "Identifier \<Rightarrow> SymbolType \<Rightarrow> SymbolType" where
  "classifyDefinition definitionNode symbolType =
     (case getParent definitionNode of
        None \<Rightarrow> symbolType
      | Some parent \<Rightarrow>
          if kind parent = FunctionDeclaration then Function
          else if kind parent = InterfaceDeclaration then Interface
          else if kind parent = ClassDeclaration then Class
          else if kind parent = VariableDeclaration then Variable
          else symbolType)"

subsection \<open>Deciding whether a node is a reference (lines 141 to 224)\<close>

text \<open>The loop over \<^verbatim>\<open>node.getDefinitions()\<close> that sets \<^verbatim>\<open>isReferenceToDefinition\<close>.\<close>

fun isReferenceToDefinition ::
  "SourceFile \<Rightarrow> Identifier \<Rightarrow> Identifier \<Rightarrow> DeclarationNode option list \<Rightarrow> bool" where
  "isReferenceToDefinition defFile definitionNode node [] = False"
| "isReferenceToDefinition defFile definitionNode node (None # defs) =
     isReferenceToDefinition defFile definitionNode node defs"
| "isReferenceToDefinition defFile definitionNode node (Some defNode # defs) =
     (if declFilePath defNode = getFilePath defFile \<and> declPos defNode = getPos definitionNode
      then True
      else
        case getParent node of
          None \<Rightarrow> isReferenceToDefinition defFile definitionNode node defs
        | Some nodeParent \<Rightarrow>
            if kind nodeParent = NewExpression \<and> declKind defNode = ClassDeclaration then True
            else if kind nodeParent = PropertyAccessExpression \<and> declKind defNode = MethodDeclaration
            then True
            else isReferenceToDefinition defFile definitionNode node defs)"

text \<open>
  The test of lines 181 to 196. Two ts-morph nodes are the same object when they are the
  same node of the same source file: \<^verbatim>\<open>node === definitionNode\<close> is equality of the
  file and of the node's record, which carries the node's position.
\<close>

definition isDefinitionItself ::
  "SourceFile \<Rightarrow> Identifier \<Rightarrow> SourceFile \<Rightarrow> Identifier \<Rightarrow> bool" where
  "isDefinitionItself defFile definitionNode sourceFile node \<longleftrightarrow>
     (case getParent node of
        None \<Rightarrow> False
      | Some parent \<Rightarrow>
          ((sourceFile = defFile \<and> node = definitionNode) \<and>
           (kind parent = ClassDeclaration \<or>
            kind parent = InterfaceDeclaration \<or>
            kind parent = FunctionDeclaration \<or>
            kind parent = MethodDeclaration \<or>
            kind parent = PropertyDeclaration \<or>
            kind parent = MethodSignature)) \<or>
          (kind parent = PropertyAccessExpression \<and> parentKind parent = Some MethodDeclaration))"

definition possiblePaths :: "PathApi \<Rightarrow> SourceFile \<Rightarrow> string \<Rightarrow> string list" where
  "possiblePaths P sourceFile importedModule =
     (let importerDir = pathDirname P (getFilePath sourceFile);
          resolvedPath = pathResolve P importerDir importedModule
      in [resolvedPath @ ''.ts'',
          resolvedPath @ ''.tsx'',
          pathJoin P resolvedPath ''index.ts'',
          pathJoin P resolvedPath ''index.tsx''])"

text \<open>The test of lines 199 to 224: \<open>False\<close> where the source continues.\<close>

definition importAccepted :: "PathApi \<Rightarrow> SourceFile \<Rightarrow> SourceFile \<Rightarrow> Identifier \<Rightarrow> bool" where
  "importAccepted P defFile sourceFile node \<longleftrightarrow>
     (case getParent node of
        None \<Rightarrow> True
      | Some parent \<Rightarrow>
          if kind parent = ImportSpecifier
          then (case importDeclaration parent of
                  None \<Rightarrow> True
                | Some importedModule \<Rightarrow>
                    if startsWith importedModule ''.''
                    then getFilePath defFile \<in> set (possiblePaths P sourceFile importedModule)
                    else False)
          else True)"

subsection \<open>Building a reference (lines 226 to 263)\<close>

definition contextOf :: "Identifier \<Rightarrow> string" where
  "contextOf node =
     (case containingClass node of
        Some name \<Rightarrow>
          ''class '' @ templateString name @
            (case containingMethod node of Some m \<Rightarrow> ''.'' @ m | None \<Rightarrow> '''')
      | None \<Rightarrow>
          (case containingInterface node of
             Some i \<Rightarrow> ''interface '' @ i
           | None \<Rightarrow>
               (case containingFunction node of
                  Some f \<Rightarrow> ''function '' @ templateString f
                | None \<Rightarrow>
                    (case containingMethod node of
                       Some m \<Rightarrow> ''method '' @ m
                     | None \<Rightarrow> ''global scope''))))"

definition makeReference :: "PathApi \<Rightarrow> SourceFile \<Rightarrow> Identifier \<Rightarrow> Location" where
  "makeReference P sourceFile node =
     \<lparr>filePath = pathRelative P (processCwd P) (getFilePath sourceFile),
      line = getLine node,
      column = getColumn node,
      context' = contextOf node\<rparr>"

definition refKey :: "Location \<Rightarrow> string" where
  "refKey r =
     filePath r @ '':'' @ showNat (line r) @ '':'' @ showNat (column r) @ '':'' @ context' r"

text \<open>The body of the loop over the nodes of a file; the state is the key set and the list.\<close>

definition visitNode ::
  "PathApi \<Rightarrow> SourceFile \<Rightarrow> Identifier \<Rightarrow> SourceFile \<Rightarrow> Identifier \<Rightarrow>
   string set \<times> Location list \<Rightarrow> string set \<times> Location list" where
  "visitNode P defFile definitionNode sourceFile node st =
     (case st of (refsSet, refs) \<Rightarrow>
        if \<not> isReferenceToDefinition defFile definitionNode node (getDefinitions node) then st
        else if endsWith (getFilePath sourceFile) ''.d.ts'' then st
        else if isDefinitionItself defFile definitionNode sourceFile node then st
        else if \<not> importAccepted P defFile sourceFile node then st
        else
          let r = makeReference P sourceFile node in
          if refKey r \<notin> refsSet then (insert (refKey r) refsSet, refs @ [r]) else st)"

fun visitNodes ::
  "PathApi \<Rightarrow> SourceFile \<Rightarrow> Identifier \<Rightarrow> SourceFile \<Rightarrow> Identifier list \<Rightarrow>
   string set \<times> Location list \<Rightarrow> string set \<times> Location list" where
  "visitNodes P defFile definitionNode sourceFile [] st = st"
| "visitNodes P defFile definitionNode sourceFile (node # nodes) st =
     visitNodes P defFile definitionNode sourceFile nodes
       (visitNode P defFile definitionNode sourceFile node st)"

text \<open>The loop over the source files (lines 127 to 265).\<close>

fun collectReferences ::
  "PathApi \<Rightarrow> string \<Rightarrow> bool \<Rightarrow> SourceFile \<Rightarrow> Identifier \<Rightarrow> SourceFile list \<Rightarrow>
   string set \<times> Location list \<Rightarrow> string set \<times> Location list" where
  "collectReferences P symbolName includeInternalReferences defFile definitionNode [] st = st"
| "collectReferences P symbolName includeInternalReferences defFile definitionNode
     (sourceFile # sourceFiles) st =
     collectReferences P symbolName includeInternalReferences defFile definitionNode sourceFiles
       (if getFilePath sourceFile = getFilePath defFile \<and> \<not> includeInternalReferences then st
        else visitNodes P defFile definitionNode sourceFile
               (filter (\<lambda>node. getText node = symbolName) (identifiers sourceFile)) st)"

definition analyzeSymbol ::
  "PathApi \<Rightarrow> SourceFile list \<Rightarrow> string \<Rightarrow> bool \<Rightarrow> error + ReferenceResult" where
  "analyzeSymbol P project symbolName includeInternalReferences =
     (case findDefinition project symbolName Function of
        (None, symbolType) \<Rightarrow> Inl (SymbolNotFound symbolName)
      | (Some (defFile, definitionNode), symbolType) \<Rightarrow>
          let refs = snd (collectReferences P symbolName includeInternalReferences
                            defFile definitionNode project ({}, []))
          in Inr \<lparr>symbol = symbolName,
                  type' = classifyDefinition definitionNode symbolType,
                  definition' =
                    \<lparr>filePath = pathRelative P (processCwd P) (getFilePath defFile),
                     line = getLine definitionNode,
                     column = getColumn definitionNode,
                     context' = ''global scope''\<rparr>,
                  references = refs,
                  isReferenced = (0 < length refs)\<rparr>)"

section \<open>checkFile\<close>

record DeadSymbolEntry =
  entryType :: SymbolType
  entryName :: string
  entryContext :: string

text \<open>\<^verbatim>\<open>name && !checkedSymbols.has(name)\<close>: an undefined or empty name is falsy.\<close>

definition isUnchecked :: "string option \<Rightarrow> string set \<Rightarrow> bool" where
  "isUnchecked name checkedSymbols \<longleftrightarrow>
     (case name of None \<Rightarrow> False | Some n \<Rightarrow> n \<noteq> [] \<and> n \<notin> checkedSymbols)"

text \<open>
  The first loop (lines 305 to 325) over the functions, classes, interfaces and
  variable declarations of the file, each with its name and its kind. The state is
  \<^verbatim>\<open>checkedSymbols\<close> and \<^verbatim>\<open>unreferencedSymbols\<close>; an error thrown by
  \<^verbatim>\<open>analyzeSymbol\<close> leaves the method.
\<close>

fun checkDeclarations ::
  "PathApi \<Rightarrow> SourceFile list \<Rightarrow> (string option \<times> SyntaxKind) list \<Rightarrow>
   string set \<times> DeadSymbolEntry list \<Rightarrow> error + string set \<times> DeadSymbolEntry list" where
  "checkDeclarations P project [] st = Inr st"
| "checkDeclarations P project ((name, declarationKind) # declarations) (checkedSymbols, unreferencedSymbols) =
     (if isUnchecked name checkedSymbols
      then
        (case analyzeSymbol P project (the name) False of
           Inl e \<Rightarrow> Inl e
         | Inr result \<Rightarrow>
             checkDeclarations P project declarations
               (insert (the name) checkedSymbols,
                if \<not> isReferenced result
                then unreferencedSymbols @
                     [\<lparr>entryType =
                         (if declarationKind = InterfaceDeclaration then Interface
                          else if declarationKind = ClassDeclaration then Class
                          else type' result),
                       entryName = the name,
                       entryContext = ''global scope''\<rparr>]
                else unreferencedSymbols))
      else checkDeclarations P project declarations (checkedSymbols, unreferencedSymbols))"

text \<open>
  The loops over the methods and over the properties of one class (lines 332 to 361)
  differ in the type they write only.
\<close>

fun checkMembers ::
  "PathApi \<Rightarrow> SourceFile list \<Rightarrow> SymbolType \<Rightarrow> string option \<Rightarrow> string list \<Rightarrow>
   string set \<times> DeadSymbolEntry list \<Rightarrow> error + string set \<times> DeadSymbolEntry list" where
  "checkMembers P project memberType className' [] st = Inr st"
| "checkMembers P project memberType className' (name # names) (checkedSymbols, unreferencedSymbols) =
     (if isUnchecked (Some name) checkedSymbols
      then
        (case analyzeSymbol P project name False of
           Inl e \<Rightarrow> Inl e
         | Inr result \<Rightarrow>
             checkMembers P project memberType className' names
               (insert name checkedSymbols,
                if \<not> isReferenced result
                then unreferencedSymbols @
                     [\<lparr>entryType = memberType,
                       entryName = name,
                       entryContext = ''class '' @ templateString className'\<rparr>]
                else unreferencedSymbols))
      else checkMembers P project memberType className' names (checkedSymbols, unreferencedSymbols))"

fun checkClasses ::
  "PathApi \<Rightarrow> SourceFile list \<Rightarrow> ClassDecl list \<Rightarrow>
   string set \<times> DeadSymbolEntry list \<Rightarrow> error + string set \<times> DeadSymbolEntry list" where
  "checkClasses P project [] st = Inr st"
| "checkClasses P project (classDecl # classes) st =
     (case checkMembers P project Method (className classDecl) (getMethods classDecl) st of
        Inl e \<Rightarrow> Inl e
      | Inr st1 \<Rightarrow>
          (case checkMembers P project Property (className classDecl) (getProperties classDecl) st1 of
             Inl e \<Rightarrow> Inl e
           | Inr st2 \<Rightarrow> checkClasses P project classes st2))"

text \<open>
  \<^verbatim>\<open>getSourceFileOrThrow\<close> of ts-morph takes a file name or a path. An argument with a
  slash is a path: it is resolved against the working directory and the source file
  with that path is returned. An argument without a slash is a file name: the first
  source file, in the order of enumeration, whose path ends with that name is returned.
\<close>

definition getSourceFile :: "PathApi \<Rightarrow> SourceFile list \<Rightarrow> string \<Rightarrow> SourceFile option" where
  "getSourceFile P project fileNameOrPath =
     (if CHR ''/'' \<in> set fileNameOrPath
      then find (\<lambda>sourceFile.
                   getFilePath sourceFile = pathResolve P (processCwd P) fileNameOrPath) project
      else find (\<lambda>sourceFile. endsWith (getFilePath sourceFile) (''/'' @ fileNameOrPath)) project)"

definition declarationsOf :: "SourceFile \<Rightarrow> (string option \<times> SyntaxKind) list" where
  "declarationsOf sourceFile =
     map (\<lambda>n. (n, FunctionDeclaration)) (getFunctions sourceFile) @
     map (\<lambda>c. (className c, ClassDeclaration)) (getClasses sourceFile) @
     map (\<lambda>n. (Some n, InterfaceDeclaration)) (getInterfaces sourceFile) @
     map (\<lambda>n. (Some n, VariableDeclaration)) (getVariableDeclarations sourceFile)"

definition checkFile :: "PathApi \<Rightarrow> SourceFile list \<Rightarrow> string \<Rightarrow> error + DeadSymbolEntry list" where
  "checkFile P project path =
     (case getSourceFile P project path of
        None \<Rightarrow> Inl (FileNotInWorkspace path)
      | Some sourceFile \<Rightarrow>
          (case checkDeclarations P project (declarationsOf sourceFile) ({}, []) of
             Inl e \<Rightarrow> Inl e
           | Inr st1 \<Rightarrow>
               (case checkClasses P project (getClasses sourceFile) st1 of
                  Inl e \<Rightarrow> Inl e
                | Inr st2 \<Rightarrow> Inr (snd st2))))"

section \<open>Notions used in the statements\<close>

text \<open>The definition that \<open>analyzeSymbol\<close> settles on, if any.\<close>

definition definitionOf :: "SourceFile list \<Rightarrow> string \<Rightarrow> (SourceFile \<times> Identifier) option" where
  "definitionOf project symbolName = fst (findDefinition project symbolName Function)"

text \<open>
  The acceptance rule of the definition search, and the first accepted occurrence in
  file-then-occurrence order over the files that are not \<^verbatim>\<open>.d.ts\<close> files, written as
  the specification words it.
\<close>

definition isDeclarationOccurrence :: "Identifier \<Rightarrow> bool" where
  "isDeclarationOccurrence node \<longleftrightarrow>
     (case getParent node of None \<Rightarrow> False | Some parent \<Rightarrow> isDeclarationParent parent)"

definition declarationOccurrences ::
  "SourceFile list \<Rightarrow> string \<Rightarrow> (SourceFile \<times> Identifier) list" where
  "declarationOccurrences project symbolName =
     concat (map (\<lambda>sourceFile.
                    map (Pair sourceFile)
                      (filter (\<lambda>node. getText node = symbolName \<and> isDeclarationOccurrence node)
                         (identifiers sourceFile)))
               (filter (\<lambda>sourceFile. \<not> endsWith (getFilePath sourceFile) ''.d.ts'') project))"

definition firstDeclaration ::
  "SourceFile list \<Rightarrow> string \<Rightarrow> (SourceFile \<times> Identifier) option" where
  "firstDeclaration project symbolName =
     (case declarationOccurrences project symbolName of [] \<Rightarrow> None | x # xs \<Rightarrow> Some x)"

text \<open>
  A node is a reference when it passes the four tests of \<open>visitNode\<close>, that is, when
  the loop body reaches line 226 for it.
\<close>

definition isReference ::
  "PathApi \<Rightarrow> SourceFile \<Rightarrow> Identifier \<Rightarrow> SourceFile \<Rightarrow> Identifier \<Rightarrow> bool" where
  "isReference P defFile definitionNode sourceFile node \<longleftrightarrow>
     isReferenceToDefinition defFile definitionNode node (getDefinitions node) \<and>
     \<not> endsWith (getFilePath sourceFile) ''.d.ts'' \<and>
     \<not> isDefinitionItself defFile definitionNode sourceFile node \<and>
     importAccepted P defFile sourceFile node"

text \<open>Lines 255 to 263: the reference is pushed unless its key was seen.\<close>

definition pushReference ::
  "string set \<times> Location list \<Rightarrow> Location \<Rightarrow> string set \<times> Location list" where
  "pushReference st r =
     (if refKey r \<notin> fst st then (insert (refKey r) (fst st), snd st @ [r]) else st)"

text \<open>
  The occurrences that are references, in the order in which the two loops visit them:
  file by file, the declaring file left out unless internal references are included.
\<close>

definition referenceOccurrences ::
  "PathApi \<Rightarrow> string \<Rightarrow> bool \<Rightarrow> SourceFile \<Rightarrow> Identifier \<Rightarrow> SourceFile list \<Rightarrow>
   (SourceFile \<times> Identifier) list" where
  "referenceOccurrences P symbolName incl defFile definitionNode project =
     concat (map (\<lambda>sourceFile.
        if getFilePath sourceFile = getFilePath defFile \<and> \<not> incl then []
        else map (Pair sourceFile)
               (filter (\<lambda>node. getText node = symbolName \<and>
                                isReference P defFile definitionNode sourceFile node)
                  (identifiers sourceFile))) project)"


text \<open>
  Deduplication as the specification words it: of the elements with the same key the
  first one is kept, and the order of the kept elements is the order of insertion.
\<close>

function firstByKey :: "('a \<Rightarrow> 'k) \<Rightarrow> 'a list \<Rightarrow> 'a list" where
  "firstByKey f [] = []"
| "firstByKey f (x # xs) = x # firstByKey f (filter (\<lambda>y. f y \<noteq> f x) xs)"
  by pat_completeness auto
termination
  by (relation "measure (\<lambda>(f, xs). length xs)") (auto simp: less_Suc_eq_le)

text \<open>
  The dead-symbol scan as one loop. A scan item is a declared name, the type that
  \<^verbatim>\<open>checkFile\<close> writes for it whatever the analysis says (for a class, an interface,
  a method, a property), and its context; \<open>scanOrder\<close> lists the items of a file in
  the order of the three loops of \<^verbatim>\<open>checkFile\<close>, and \<open>checkItems\<close> is their common
  loop body. \<open>isDead\<close> and \<open>deadEntry\<close> are the test and the entry of one item.
\<close>

type_synonym scanItem = "string option \<times> SymbolType option \<times> string"

fun checkItems ::
  "PathApi \<Rightarrow> SourceFile list \<Rightarrow> scanItem list \<Rightarrow>
   string set \<times> DeadSymbolEntry list \<Rightarrow> error + string set \<times> DeadSymbolEntry list" where
  "checkItems P project [] st = Inr st"
| "checkItems P project ((name, forced, ctx) # items) (checkedSymbols, unreferencedSymbols) =
     (if isUnchecked name checkedSymbols
      then
        (case analyzeSymbol P project (the name) False of
           Inl e \<Rightarrow> Inl e
         | Inr result \<Rightarrow>
             checkItems P project items
               (insert (the name) checkedSymbols,
                if \<not> isReferenced result
                then unreferencedSymbols @
                     [\<lparr>entryType = (case forced of None \<Rightarrow> type' result | Some t \<Rightarrow> t),
                       entryName = the name,
                       entryContext = ctx\<rparr>]
                else unreferencedSymbols))
      else checkItems P project items (checkedSymbols, unreferencedSymbols))"

definition memberItems :: "SymbolType \<Rightarrow> string option \<Rightarrow> string list \<Rightarrow> scanItem list" where
  "memberItems memberType className' names =
     map (\<lambda>n. (Some n, Some memberType, ''class '' @ templateString className')) names"

definition scanOrder :: "SourceFile \<Rightarrow> scanItem list" where
  "scanOrder sourceFile =
     map (\<lambda>(name, declarationKind).
            (name,
             if declarationKind = InterfaceDeclaration then Some Interface
             else if declarationKind = ClassDeclaration then Some Class
             else None,
             ''global scope''))
       (declarationsOf sourceFile) @
     concat (map (\<lambda>classDecl.
                    memberItems Method (className classDecl) (getMethods classDecl) @
                    memberItems Property (className classDecl) (getProperties classDecl))
               (getClasses sourceFile))"

definition isDead :: "PathApi \<Rightarrow> SourceFile list \<Rightarrow> scanItem \<Rightarrow> bool" where
  "isDead P project item \<longleftrightarrow>
     \<not> isReferenced (projr (analyzeSymbol P project (the (fst item)) False))"

definition deadEntry :: "PathApi \<Rightarrow> SourceFile list \<Rightarrow> scanItem \<Rightarrow> DeadSymbolEntry" where
  "deadEntry P project item =
     \<lparr>entryType =
        (case fst (snd item) of
           None \<Rightarrow> type' (projr (analyzeSymbol P project (the (fst item)) False))
         | Some t \<Rightarrow> t),
      entryName = the (fst item),
      entryContext = snd (snd item)\<rparr>"

section \<open>The path functions on POSIX, for evaluation on concrete projects\<close>

text \<open>
  Node's \<^verbatim>\<open>path.dirname\<close>, \<^verbatim>\<open>path.resolve\<close>, \<^verbatim>\<open>path.join\<close> and \<^verbatim>\<open>path.relative\<close>
  on paths without a trailing slash, as its documentation describes them. The general
  theorems below hold for any \<open>PathApi\<close>; this instance evaluates the examples.
\<close>

fun splitOn :: "char \<Rightarrow> string \<Rightarrow> string list" where
  "splitOn c [] = [[]]"
| "splitOn c (x # xs) =
     (if x = c then [] # splitOn c xs
      else (case splitOn c xs of [] \<Rightarrow> [[x]] | y # ys \<Rightarrow> (x # y) # ys))"

fun joinWith :: "string \<Rightarrow> string list \<Rightarrow> string" where
  "joinWith sep [] = []"
| "joinWith sep [s] = s"
| "joinWith sep (s # t # ss) = s @ sep @ joinWith sep (t # ss)"

text \<open>Segments of an absolute path, normalised: the stack is kept reversed.\<close>

fun normalizeAbsolute :: "string list \<Rightarrow> string list \<Rightarrow> string list" where
  "normalizeAbsolute stack [] = rev stack"
| "normalizeAbsolute stack (s # ss) =
     (if s = [] \<or> s = ''.'' then normalizeAbsolute stack ss
      else if s = ''..'' then normalizeAbsolute (tl stack) ss
      else normalizeAbsolute (s # stack) ss)"

fun normalizeRelative :: "string list \<Rightarrow> string list \<Rightarrow> string list" where
  "normalizeRelative stack [] = rev stack"
| "normalizeRelative stack (s # ss) =
     (if s = [] \<or> s = ''.'' then normalizeRelative stack ss
      else if s = ''..'' then
        (if stack = [] \<or> hd stack = ''..'' then normalizeRelative (s # stack) ss
         else normalizeRelative (tl stack) ss)
      else normalizeRelative (s # stack) ss)"

definition absoluteSegments :: "string \<Rightarrow> string \<Rightarrow> string list" where
  "absoluteSegments cwd p =
     normalizeAbsolute [] (splitOn CHR ''/'' (if startsWith p ''/'' then p else cwd @ ''/'' @ p))"

definition posixResolve :: "string \<Rightarrow> string \<Rightarrow> string \<Rightarrow> string" where
  "posixResolve cwd a b =
     ''/'' @ joinWith ''/''
       (if startsWith b ''/'' then absoluteSegments cwd b
        else absoluteSegments cwd (a @ ''/'' @ b))"

definition posixDirname :: "string \<Rightarrow> string" where
  "posixDirname p =
     (let parts = splitOn CHR ''/'' p in
      if length parts \<le> 1 then ''.''
      else if joinWith ''/'' (butlast parts) = [] then ''/''
      else joinWith ''/'' (butlast parts))"

definition posixJoin :: "string \<Rightarrow> string \<Rightarrow> string" where
  "posixJoin a b =
     (let parts = splitOn CHR ''/'' (a @ ''/'' @ b) in
      if startsWith a ''/'' then ''/'' @ joinWith ''/'' (normalizeAbsolute [] parts)
      else if normalizeRelative [] parts = [] then ''.''
      else joinWith ''/'' (normalizeRelative [] parts))"

fun dropCommon :: "string list \<Rightarrow> string list \<Rightarrow> string list \<times> string list" where
  "dropCommon (x # xs) (y # ys) = (if x = y then dropCommon xs ys else (x # xs, y # ys))"
| "dropCommon xs ys = (xs, ys)"

definition posixRelative :: "string \<Rightarrow> string \<Rightarrow> string" where
  "posixRelative base target =
     (case dropCommon (absoluteSegments base base) (absoluteSegments base target) of
        (up, down) \<Rightarrow> joinWith ''/'' (map (\<lambda>s. ''..'') up @ down))"

definition posix :: "string \<Rightarrow> PathApi" where
  "posix cwd =
     \<lparr>processCwd = cwd,
      pathDirname = posixDirname,
      pathResolve = posixResolve cwd,
      pathJoin = posixJoin,
      pathRelative = posixRelative\<rparr>"

section \<open>A sample project\<close>

text \<open>
  Four files under \<^verbatim>\<open>/proj/src\<close>, analysed from the working directory \<^verbatim>\<open>/proj\<close>.

  \<^verbatim>\<open>globals.d.ts\<close>:
  \<^verbatim>\<open>
  declare class NotificationService { notify(msg: string): void; }
  export default NotificationService.prototype.notify;
  \<close>
  \<^verbatim>\<open>NotificationService.ts\<close>:
  \<^verbatim>\<open>
  export class NotificationService {
    notify(msg: string): void {}
    send(): void { this.notify('x'); }
  }
  \<close>
  \<^verbatim>\<open>main.ts\<close>:
  \<^verbatim>\<open>
  import { NotificationService } from './NotificationService';
  const svc = new NotificationService();
  svc.send();
  \<close>
  \<^verbatim>\<open>config.ts\<close>:
  \<^verbatim>\<open>
  export const limit = 10;
  \<close>
\<close>

definition ident ::
  "string \<Rightarrow> nat \<Rightarrow> nat \<Rightarrow> nat \<Rightarrow> ParentNode \<Rightarrow> DeclarationNode list \<Rightarrow>
   string option option \<Rightarrow> string option \<Rightarrow> Identifier" where
  "ident name pos l c parent defs cls method =
     \<lparr>getText = name, getPos = pos, getLine = l, getColumn = c,
      getParent = Some parent, getDefinitions = map Some defs,
      containingFunction = None, containingClass = cls,
      containingInterface = None, containingMethod = method\<rparr>"

definition parentOf :: "SyntaxKind \<Rightarrow> SyntaxKind \<Rightarrow> ParentNode" where
  "parentOf k pk = \<lparr>kind = k, parentKind = Some pk, importDeclaration = None\<rparr>"

definition declAt :: "string \<Rightarrow> nat \<Rightarrow> SyntaxKind \<Rightarrow> DeclarationNode" where
  "declAt file pos k = \<lparr>declFilePath = file, declPos = pos, declKind = k\<rparr>"

definition serviceClass :: DeclarationNode where
  "serviceClass = declAt ''/proj/src/NotificationService.ts'' 0 ClassDeclaration"

definition notifyMethod :: DeclarationNode where
  "notifyMethod = declAt ''/proj/src/NotificationService.ts'' 34 MethodDeclaration"

definition sendMethod :: DeclarationNode where
  "sendMethod = declAt ''/proj/src/NotificationService.ts'' 65 MethodDeclaration"

definition inService :: "string option option" where
  "inService = Some (Some ''NotificationService'')"

definition notifyName :: Identifier where
  "notifyName =
     ident ''notify'' 34 2 3 (parentOf MethodDeclaration ClassDeclaration) [notifyMethod]
       inService (Some ''notify'')"

definition notifyCall :: Identifier where
  "notifyCall =
     ident ''notify'' 88 3 23 (parentOf PropertyAccessExpression CallExpression) [notifyMethod]
       inService (Some ''send'')"

definition serviceName :: Identifier where
  "serviceName =
     ident ''NotificationService'' 12 1 14 (parentOf ClassDeclaration OtherKind)
       [serviceClass] inService None"

definition serviceFile :: SourceFile where
  "serviceFile =
     \<lparr>getFilePath = ''/proj/src/NotificationService.ts'',
      identifiers =
        [serviceName,
         notifyName,
         ident ''msg'' 44 2 10 (parentOf Parameter MethodDeclaration)
           [declAt ''/proj/src/NotificationService.ts'' 44 Parameter] inService (Some ''notify''),
         ident ''send'' 65 3 3 (parentOf MethodDeclaration ClassDeclaration) [sendMethod]
           inService (Some ''send''),
         notifyCall],
      getFunctions = [],
      getClasses =
        [\<lparr>className = Some ''NotificationService'',
          getMethods = [''notify'', ''send''],
          getProperties = []\<rparr>],
      getInterfaces = [],
      getVariableDeclarations = []\<rparr>"

definition serviceImport :: Identifier where
  "serviceImport =
     ident ''NotificationService'' 8 1 10
       \<lparr>kind = ImportSpecifier, parentKind = Some OtherKind,
        importDeclaration = Some ''./NotificationService''\<rparr>
       [serviceClass] None None"

definition serviceNew :: Identifier where
  "serviceNew =
     ident ''NotificationService'' 76 2 17 (parentOf NewExpression VariableDeclaration)
       [serviceClass] None None"

definition mainFile :: SourceFile where
  "mainFile =
     \<lparr>getFilePath = ''/proj/src/main.ts'',
      identifiers =
        [serviceImport,
         ident ''svc'' 66 2 7 (parentOf VariableDeclaration OtherKind)
           [declAt ''/proj/src/main.ts'' 66 VariableDeclaration] None None,
         serviceNew,
         ident ''svc'' 99 3 1 (parentOf PropertyAccessExpression PropertyAccessExpression)
           [declAt ''/proj/src/main.ts'' 66 VariableDeclaration] None None,
         ident ''send'' 104 3 5 (parentOf PropertyAccessExpression CallExpression)
           [sendMethod] None None],
      getFunctions = [],
      getClasses = [],
      getInterfaces = [],
      getVariableDeclarations = [''svc'']\<rparr>"

definition ambientNotify :: Identifier where
  "ambientNotify =
     ident ''notify'' 109 2 45 (parentOf PropertyAccessExpression OtherKind)
       [declAt ''/proj/src/globals.d.ts'' 35 MethodDeclaration] None None"

definition ambientFile :: SourceFile where
  "ambientFile =
     \<lparr>getFilePath = ''/proj/src/globals.d.ts'',
      identifiers =
        [ident ''NotificationService'' 13 1 15 (parentOf ClassDeclaration OtherKind)
           [declAt ''/proj/src/globals.d.ts'' 0 ClassDeclaration]
           (Some (Some ''NotificationService'')) None,
         ident ''notify'' 35 1 37 (parentOf MethodDeclaration ClassDeclaration)
           [declAt ''/proj/src/globals.d.ts'' 35 MethodDeclaration]
           (Some (Some ''NotificationService'')) (Some ''notify''),
         ident ''msg'' 42 1 44 (parentOf Parameter MethodDeclaration)
           [declAt ''/proj/src/globals.d.ts'' 42 Parameter]
           (Some (Some ''NotificationService'')) (Some ''notify''),
         ident ''NotificationService'' 79 2 16
           (parentOf PropertyAccessExpression PropertyAccessExpression)
           [declAt ''/proj/src/globals.d.ts'' 0 ClassDeclaration] None None,
         ident ''prototype'' 99 2 36
           (parentOf PropertyAccessExpression PropertyAccessExpression) [] None None,
         ambientNotify],
      getFunctions = [],
      getClasses =
        [\<lparr>className = Some ''NotificationService'',
          getMethods = [''notify''],
          getProperties = []\<rparr>],
      getInterfaces = [],
      getVariableDeclarations = []\<rparr>"

definition configFile :: SourceFile where
  "configFile =
     \<lparr>getFilePath = ''/proj/src/config.ts'',
      identifiers =
        [ident ''limit'' 12 1 14 (parentOf VariableDeclaration OtherKind)
           [declAt ''/proj/src/config.ts'' 12 VariableDeclaration] None None],
      getFunctions = [],
      getClasses = [],
      getInterfaces = [],
      getVariableDeclarations = [''limit'']\<rparr>"

definition sampleProject :: "SourceFile list" where
  "sampleProject = [ambientFile, serviceFile, mainFile, configFile]"

text \<open>The same files with \<^verbatim>\<open>main.ts\<close> visited twice.\<close>

definition repeatedProject :: "SourceFile list" where
  "repeatedProject = [serviceFile, mainFile, mainFile]"

text \<open>
  A class with a method implemented twice (the compiler reports the duplicate, the
  parser keeps both), \<^verbatim>\<open>/proj/src/shape.ts\<close>:
  \<^verbatim>\<open>
  export class Shape {
    area() { return 1; }
    area() { return 2; }
  }
  \<close>
  Both names resolve to both method declarations.
\<close>

definition areaMethods :: "DeclarationNode list" where
  "areaMethods =
     [declAt ''/proj/src/shape.ts'' 20 MethodDeclaration,
      declAt ''/proj/src/shape.ts'' 43 MethodDeclaration]"

definition areaFirst :: Identifier where
  "areaFirst =
     ident ''area'' 20 2 3 (parentOf MethodDeclaration ClassDeclaration) areaMethods
       (Some (Some ''Shape'')) (Some ''area'')"

definition areaSecond :: Identifier where
  "areaSecond =
     ident ''area'' 43 3 3 (parentOf MethodDeclaration ClassDeclaration) areaMethods
       (Some (Some ''Shape'')) (Some ''area'')"

definition shapeFile :: SourceFile where
  "shapeFile =
     \<lparr>getFilePath = ''/proj/src/shape.ts'',
      identifiers =
        [ident ''Shape'' 12 1 14 (parentOf ClassDeclaration OtherKind)
           [declAt ''/proj/src/shape.ts'' 0 ClassDeclaration] (Some (Some ''Shape'')) None,
         areaFirst,
         areaSecond],
      getFunctions = [],
      getClasses =
        [\<lparr>className = Some ''Shape'', getMethods = [''area'', ''area''], getProperties = []\<rparr>],
      getInterfaces = [],
      getVariableDeclarations = []\<rparr>"

definition shapeProject :: "SourceFile list" where
  "shapeProject = [shapeFile]"

text \<open>
  The sample files together with a default import of the same name from a package,
  \<^verbatim>\<open>/proj/src/legacy.ts\<close>:
  \<^verbatim>\<open>
  import NotificationService from 'notification-service';
  \<close>
  The name resolves to the class that the package declares, outside the project.
\<close>

definition fileOf :: "string \<Rightarrow> Identifier list \<Rightarrow> SourceFile" where
  "fileOf path nodes =
     \<lparr>getFilePath = path, identifiers = nodes, getFunctions = [], getClasses = [],
      getInterfaces = [], getVariableDeclarations = []\<rparr>"




text \<open>
  A function that is called in its own file only, \<^verbatim>\<open>/proj/src/helper.ts\<close>:
  \<^verbatim>\<open>
  function helper() {}
  helper();
  \<close>
  Both names resolve to the function declaration, which starts at offset 0; the name
  in the declaration starts after the keyword.
\<close>

definition helperDecl :: DeclarationNode where
  "helperDecl = declAt ''/proj/src/helper.ts'' 0 FunctionDeclaration"

definition helperName :: Identifier where
  "helperName =
     (ident ''helper'' 8 1 10 (parentOf FunctionDeclaration OtherKind) [helperDecl] None None)
       \<lparr>containingFunction := Some (Some ''helper'')\<rparr>"

definition helperCall :: Identifier where
  "helperCall =
     ident ''helper'' 20 2 1 (parentOf CallExpression OtherKind) [helperDecl] None None"

definition helperFile :: SourceFile where
  "helperFile =
     (fileOf ''/proj/src/helper.ts'' [helperName, helperCall])
       \<lparr>getFunctions := [Some ''helper'']\<rparr>"

definition helperProject :: "SourceFile list" where
  "helperProject = [helperFile]"

text \<open>
  A file whose function and method share a name, \<^verbatim>\<open>/proj/src/task.ts\<close>:
  \<^verbatim>\<open>
  export function run() {}
  export class Task {
    run() {}
    retries = 0;
  }
  \<close>
\<close>

definition taskFile :: SourceFile where
  "taskFile =
     \<lparr>getFilePath = ''/proj/src/task.ts'',
      identifiers =
        [(ident ''run'' 15 1 17 (parentOf FunctionDeclaration OtherKind)
            [declAt ''/proj/src/task.ts'' 0 FunctionDeclaration] None None)
           \<lparr>containingFunction := Some (Some ''run'')\<rparr>,
         ident ''Task'' 37 2 14 (parentOf ClassDeclaration OtherKind)
           [declAt ''/proj/src/task.ts'' 24 ClassDeclaration] (Some (Some ''Task'')) None,
         ident ''run'' 44 3 3 (parentOf MethodDeclaration ClassDeclaration)
           [declAt ''/proj/src/task.ts'' 44 MethodDeclaration] (Some (Some ''Task'')) (Some ''run''),
         ident ''retries'' 55 4 3 (parentOf PropertyDeclaration ClassDeclaration)
           [declAt ''/proj/src/task.ts'' 55 PropertyDeclaration] (Some (Some ''Task'')) None],
      getFunctions = [Some ''run''],
      getClasses =
        [\<lparr>className = Some ''Task'', getMethods = [''run''], getProperties = [''retries'']\<rparr>],
      getInterfaces = [],
      getVariableDeclarations = []\<rparr>"

definition taskProject :: "SourceFile list" where
  "taskProject = [taskFile]"

section \<open>The classification as specified\<close>

text \<open>
  The symbol type that the specification assigns to the kind of the parent of the
  first accepted occurrence: each declaration kind under its own name.
\<close>

definition kindOfParent :: "SyntaxKind \<Rightarrow> SymbolType" where
  "kindOfParent k =
     (if k = ClassDeclaration then Class
      else if k = InterfaceDeclaration then Interface
      else if k = FunctionDeclaration then Function
      else if k = MethodDeclaration then Method
      else if k = PropertyDeclaration then Property
      else Variable)"

section \<open>Properties\<close>

lemma analyzeSymbol_Inr:
  "analyzeSymbol P project symbolName incl = Inr r \<Longrightarrow>
   \<exists>defFile definitionNode symbolType.
     findDefinition project symbolName Function = (Some (defFile, definitionNode), symbolType) \<and>
     r = \<lparr>symbol = symbolName,
          type' = classifyDefinition definitionNode symbolType,
          definition' =
            \<lparr>filePath = pathRelative P (processCwd P) (getFilePath defFile),
             line = getLine definitionNode,
             column = getColumn definitionNode,
             context' = ''global scope''\<rparr>,
          references = snd (collectReferences P symbolName incl defFile definitionNode project ({}, [])),
          isReferenced = (0 < length (snd (collectReferences P symbolName incl
                                             defFile definitionNode project ({}, []))))\<rparr>"
  by (auto simp: analyzeSymbol_def Let_def split: prod.splits option.splits)

subsection \<open>The reference loops as a fold\<close>

lemma visitNode_eq:
  "visitNode P d dn sf n st =
     (if isReference P d dn sf n then pushReference st (makeReference P sf n) else st)"
  by (cases st) (auto simp: visitNode_def isReference_def pushReference_def Let_def)

lemma visitNodes_foldl:
  "visitNodes P d dn sf nodes st =
     foldl pushReference st (map (makeReference P sf) (filter (isReference P d dn sf) nodes))"
  by (induction nodes arbitrary: st) (simp_all add: visitNode_eq)

lemma collectReferences_foldl:
  "collectReferences P name incl d dn project st =
     foldl pushReference st
       (map (\<lambda>(sf, n). makeReference P sf n) (referenceOccurrences P name incl d dn project))"
proof (induction project arbitrary: st)
  case Nil
  show ?case by (simp add: referenceOccurrences_def)
next
  case (Cons sf project)
  have "referenceOccurrences P name incl d dn (sf # project) =
        (if getFilePath sf = getFilePath d \<and> \<not> incl then []
         else map (Pair sf) (filter (isReference P d dn sf)
                (filter (\<lambda>node. getText node = name) (identifiers sf)))) @
        referenceOccurrences P name incl d dn project"
    by (simp add: referenceOccurrences_def conj_commute)
  then show ?case
    by (simp add: Cons.IH visitNodes_foldl comp_def)
qed

lemma pushReference_seen: "refKey r \<in> S \<Longrightarrow> pushReference (S, acc) r = (S, acc)"
  by (simp add: pushReference_def)

lemma pushReference_new:
  "refKey r \<notin> S \<Longrightarrow> pushReference (S, acc) r = (insert (refKey r) S, acc @ [r])"
  by (simp add: pushReference_def)

lemma foldl_pushReference:
  "foldl pushReference (S, acc) rs =
     (S \<union> refKey ` set rs, acc @ firstByKey refKey (filter (\<lambda>r. refKey r \<notin> S) rs))"
proof (induction rs arbitrary: S acc)
  case Nil
  show ?case by simp
next
  case (Cons r rs)
  show ?case
  proof (cases "refKey r \<in> S")
    case True
    then show ?thesis
      by (simp add: pushReference_seen Cons.IH insert_absorb)
  next
    case False
    have "filter (\<lambda>x. refKey x \<notin> insert (refKey r) S) rs =
          filter (\<lambda>y. refKey y \<noteq> refKey r) (filter (\<lambda>x. refKey x \<notin> S) rs)"
      by (auto intro: filter_cong)
    with False show ?thesis
      by (simp add: pushReference_new Cons.IH)
  qed
qed

lemma set_firstByKey_subset: "set (firstByKey f xs) \<subseteq> set xs"
  by (induction f xs rule: firstByKey.induct) auto

lemma keys_firstByKey: "f ` set (firstByKey f xs) = f ` set xs"
  by (induction f xs rule: firstByKey.induct) auto

lemma distinct_firstByKey: "distinct (map f (firstByKey f xs))"
proof (induction f xs rule: firstByKey.induct)
  case (1 f)
  show ?case by simp
next
  case (2 f x xs)
  have "f x \<notin> f ` set (firstByKey f (filter (\<lambda>y. f y \<noteq> f x) xs))"
    using set_firstByKey_subset [of f "filter (\<lambda>y. f y \<noteq> f x) xs"] by auto
  with "2.IH" show ?case by simp
qed

lemma firstByKey_Nil_iff: "firstByKey f xs = [] \<longleftrightarrow> xs = []"
  by (cases xs) simp_all

lemma set_firstByKey_inj: "inj_on f (set xs) \<Longrightarrow> set (firstByKey f xs) = set xs"
proof
  show "set (firstByKey f xs) \<subseteq> set xs" by (rule set_firstByKey_subset)
next
  assume inj: "inj_on f (set xs)"
  show "set xs \<subseteq> set (firstByKey f xs)"
  proof
    fix x assume x: "x \<in> set xs"
    then have "f x \<in> f ` set (firstByKey f xs)" by (simp add: keys_firstByKey)
    then obtain y where y: "y \<in> set (firstByKey f xs)" "f y = f x" by auto
    with set_firstByKey_subset [of f xs] have "y \<in> set xs" by auto
    with inj x y have "y = x" by (auto dest: inj_onD)
    with y show "x \<in> set (firstByKey f xs)" by simp
  qed
qed

lemma references_firstByKey:
  "snd (collectReferences P name incl d dn project ({}, [])) =
     firstByKey refKey
       (map (\<lambda>(sf, n). makeReference P sf n) (referenceOccurrences P name incl d dn project))"
  by (simp add: collectReferences_foldl foldl_pushReference)

subsection \<open>The definition search finds the first accepted occurrence\<close>

lemma findInNodes_first:
  "findInNodes nodes st =
     (case filter isDeclarationOccurrence nodes of
        [] \<Rightarrow> (None, st)
      | node # rest \<Rightarrow>
          (Some node,
           let k = kind (the (getParent node)) in
           if k = ClassDeclaration then Class
           else if k = InterfaceDeclaration then Interface
           else if k = FunctionDeclaration then Function
           else st))"
  by (induction nodes)
     (auto simp: isDeclarationOccurrence_def isDeclarationParent_def Let_def split: option.splits)

lemma declarationOccurrences_Cons:
  "declarationOccurrences (sf # project) name =
     (if endsWith (getFilePath sf) ''.d.ts'' then []
      else map (Pair sf) (filter isDeclarationOccurrence
                            (filter (\<lambda>node. getText node = name) (identifiers sf)))) @
     declarationOccurrences project name"
  by (simp add: declarationOccurrences_def conj_commute)

lemma findDefinition_first:
  "findDefinition project name st =
     (case declarationOccurrences project name of
        [] \<Rightarrow> (None, st)
      | (sf, node) # rest \<Rightarrow>
          (Some (sf, node),
           let k = kind (the (getParent node)) in
           if k = ClassDeclaration then Class
           else if k = InterfaceDeclaration then Interface
           else if k = FunctionDeclaration then Function
           else st))"
proof (induction project)
  case Nil
  show ?case by (simp add: declarationOccurrences_def)
next
  case (Cons sf project)
  show ?case
  proof (cases "endsWith (getFilePath sf) ''.d.ts''")
    case True
    then show ?thesis by (simp add: Cons.IH declarationOccurrences_Cons)
  next
    case False
    show ?thesis
    proof (cases "filter isDeclarationOccurrence
                    (filter (\<lambda>node. getText node = name) (identifiers sf))")
      case Nil
      with False show ?thesis
        by (simp add: Cons.IH declarationOccurrences_Cons findInNodes_first)
    next
      case (Cons node rest)
      with False show ?thesis
        by (simp add: declarationOccurrences_Cons findInNodes_first)
    qed
  qed
qed

lemma definitionOf_firstDeclaration: "definitionOf project name = firstDeclaration project name"
  by (simp add: definitionOf_def firstDeclaration_def findDefinition_first
           split: list.splits prod.splits)

lemma declarationOccurrences_iff:
  "(sf, n) \<in> set (declarationOccurrences project name) \<longleftrightarrow>
     sf \<in> set project \<and> \<not> endsWith (getFilePath sf) ''.d.ts'' \<and>
     n \<in> set (identifiers sf) \<and> getText n = name \<and> isDeclarationOccurrence n"
  by (auto simp: declarationOccurrences_def)

lemma definitionOf_Some:
  assumes "definitionOf project name = Some (d, dn)"
  shows "d \<in> set project \<and> \<not> endsWith (getFilePath d) ''.d.ts'' \<and>
         dn \<in> set (identifiers d) \<and> getText dn = name \<and> isDeclarationOccurrence dn"
proof -
  from assms have "(d, dn) \<in> set (declarationOccurrences project name)"
    by (auto simp: definitionOf_firstDeclaration firstDeclaration_def split: list.splits)
  then show ?thesis by (simp add: declarationOccurrences_iff)
qed

lemma definitionOf_None_iff:
  "definitionOf project name = None \<longleftrightarrow>
     \<not> (\<exists>sf\<in>set project. \<not> endsWith (getFilePath sf) ''.d.ts'' \<and>
          (\<exists>n\<in>set (identifiers sf). getText n = name \<and> isDeclarationOccurrence n))"
proof -
  have "definitionOf project name = None \<longleftrightarrow> set (declarationOccurrences project name) = {}"
    by (simp add: definitionOf_firstDeclaration firstDeclaration_def split: list.splits)
  also have "\<dots> \<longleftrightarrow> \<not> (\<exists>sf n. (sf, n) \<in> set (declarationOccurrences project name))"
    by (cases "declarationOccurrences project name") auto
  finally show ?thesis
    by (simp only: declarationOccurrences_iff) blast
qed

lemma analyzeSymbol_cases:
  "analyzeSymbol P project name incl =
     (case definitionOf project name of
        None \<Rightarrow> Inl (SymbolNotFound name)
      | Some (d, dn) \<Rightarrow>
          Inr \<lparr>symbol = name,
               type' = (let k = kind (the (getParent dn)) in
                        if k = ClassDeclaration then Class
                        else if k = InterfaceDeclaration then Interface
                        else Function),
               definition' =
                 \<lparr>filePath = pathRelative P (processCwd P) (getFilePath d),
                  line = getLine dn, column = getColumn dn, context' = ''global scope''\<rparr>,
               references =
                 firstByKey refKey
                   (map (\<lambda>(sf, n). makeReference P sf n)
                      (referenceOccurrences P name incl d dn project)),
               isReferenced = (referenceOccurrences P name incl d dn project \<noteq> [])\<rparr>)"
proof (cases "definitionOf project name")
  case None
  then show ?thesis
    by (auto simp: analyzeSymbol_def definitionOf_def split: prod.splits option.splits)
next
  case (Some a)
  obtain d dn where a: "a = (d, dn)" by (cases a)
  from Some a have occ: "isDeclarationOccurrence dn"
    by (auto dest: definitionOf_Some)
  then obtain parent where parent: "getParent dn = Some parent" "isDeclarationParent parent"
    by (auto simp: isDeclarationOccurrence_def split: option.splits)
  obtain st where st: "findDefinition project name Function = (Some (d, dn), st)"
    using Some a by (cases "findDefinition project name Function") (auto simp: definitionOf_def)
  then have "st = (if kind parent = ClassDeclaration then Class
                   else if kind parent = InterfaceDeclaration then Interface
                   else Function)"
    using parent by (auto simp: findDefinition_first Let_def split: list.splits prod.splits)
  with parent have ty: "classifyDefinition dn st =
      (if kind parent = ClassDeclaration then Class
       else if kind parent = InterfaceDeclaration then Interface
       else Function)"
    by (auto simp: classifyDefinition_def isDeclarationParent_def)
  show ?thesis
    using Some a st ty parent
    by (simp add: analyzeSymbol_def Let_def references_firstByKey firstByKey_Nil_iff)
qed

lemma referenceOccurrences_iff:
  "(sf, n) \<in> set (referenceOccurrences P name incl d dn project) \<longleftrightarrow>
     sf \<in> set project \<and> (getFilePath sf \<noteq> getFilePath d \<or> incl) \<and>
     n \<in> set (identifiers sf) \<and> getText n = name \<and> isReference P d dn sf n"
  by (auto simp: referenceOccurrences_def)

lemma definition_not_reference:
  assumes "isDeclarationOccurrence dn"
  shows "\<not> isReference P d dn d dn"
  using assms
  by (auto simp: isReference_def isDefinitionItself_def isDeclarationOccurrence_def
        isDeclarationParent_def split: option.splits)


subsection \<open>Keys of references of one file\<close>

lemma digitChar_digit: "d < 10 \<Longrightarrow> digitChar d \<in> set ''0123456789''"
  unfolding digitChar_def by (rule nth_mem) simp

lemma digitChar_inj: "a < 10 \<Longrightarrow> b < 10 \<Longrightarrow> digitChar a = digitChar b \<Longrightarrow> a = b"
proof -
  assume a: "a < 10" and b: "b < 10" and e: "digitChar a = digitChar b"
  have "distinct ''0123456789''" by simp
  moreover have "a < length ''0123456789''" "b < length ''0123456789''" using a b by simp_all
  ultimately show "a = b" using e unfolding digitChar_def
    by (simp only: nth_eq_iff_index_eq)
qed

lemma showNat_digits: "c \<in> set (showNat n) \<Longrightarrow> c \<in> set ''0123456789''"
proof (induction n rule: showNat.induct)
  case (1 n)
  show ?case
  proof (cases "n < 10")
    case True
    with "1.prems" show ?thesis
      using digitChar_digit [of n] by (simp add: showNat.simps [of n])
  next
    case False
    have "n mod 10 < 10" by simp
    with False "1.prems" "1.IH" show ?thesis
      using digitChar_digit [of "n mod 10"] by (auto simp: showNat.simps [of n])
  qed
qed

lemma showNat_not_Nil: "showNat n \<noteq> []"
  by (simp add: showNat.simps [of n])

lemma showNat_inj: "showNat n = showNat m \<Longrightarrow> n = m"
proof (induction n arbitrary: m rule: showNat.induct)
  case (1 n)
  show ?case
  proof (cases "n < 10")
    case n: True
    show ?thesis
    proof (cases "m < 10")
      case True
      with n "1.prems" show ?thesis
        by (simp add: showNat.simps [of n] showNat.simps [of m] digitChar_inj)
    next
      case False
      with n "1.prems" show ?thesis
        using showNat_not_Nil [of "m div 10"]
        by (simp add: showNat.simps [of n] showNat.simps [of m])
    qed
  next
    case n: False
    show ?thesis
    proof (cases "m < 10")
      case True
      with n "1.prems" show ?thesis
        using showNat_not_Nil [of "n div 10"]
        by (simp add: showNat.simps [of n] showNat.simps [of m])
    next
      case False
      with n "1.prems" have e: "showNat (n div 10) = showNat (m div 10)"
        and d: "digitChar (n mod 10) = digitChar (m mod 10)"
        by (simp_all add: showNat.simps [of n] showNat.simps [of m])
      from "1.IH" [OF n e] have "n div 10 = m div 10" .
      moreover from d have "n mod 10 = m mod 10"
        by (rule digitChar_inj [rotated 2]) simp_all
      ultimately show ?thesis
        by (metis div_mult_mod_eq)
    qed
  qed
qed

lemma split_at_colon:
  assumes "xs @ CHR '':'' # ys = xs' @ CHR '':'' # ys'"
      and "CHR '':'' \<notin> set xs" and "CHR '':'' \<notin> set xs'"
  shows "xs = xs' \<and> ys = ys'"
  using assms
proof (induction xs arbitrary: xs')
  case Nil
  then show ?case by (cases xs') auto
next
  case (Cons x xs)
  then show ?case by (cases xs') auto
qed

lemma colon_not_in_showNat: "CHR '':'' \<notin> set (showNat n)"
  using showNat_digits [of "CHR '':''" n] by auto

lemma refKey_inj_same_file:
  assumes "refKey a = refKey b" and "filePath a = filePath b"
  shows "a = b"
proof -
  from assms have
    "showNat (line a) @ CHR '':'' # (showNat (column a) @ '':'' @ context' a) =
     showNat (line b) @ CHR '':'' # (showNat (column b) @ '':'' @ context' b)"
    by (simp add: refKey_def)
  from split_at_colon [OF this colon_not_in_showNat colon_not_in_showNat]
  have l: "showNat (line a) = showNat (line b)"
    and "showNat (column a) @ CHR '':'' # context' a = showNat (column b) @ CHR '':'' # context' b"
    by simp_all
  from split_at_colon [OF this(2) colon_not_in_showNat colon_not_in_showNat]
  have c: "showNat (column a) = showNat (column b)" and x: "context' a = context' b"
    by simp_all
  from l c have "line a = line b" "column a = column b"
    by (auto dest: showNat_inj)
  with x assms(2) show ?thesis
    by (cases a, cases b) simp
qed

lemma refKey_inj_no_colon:
  assumes "refKey a = refKey b"
      and "CHR '':'' \<notin> set (filePath a)" and "CHR '':'' \<notin> set (filePath b)"
  shows "a = b"
proof -
  from assms(1) have
    "filePath a @ CHR '':'' # (showNat (line a) @ '':'' @ showNat (column a) @ '':'' @ context' a) =
     filePath b @ CHR '':'' # (showNat (line b) @ '':'' @ showNat (column b) @ '':'' @ context' b)"
    by (simp add: refKey_def)
  from split_at_colon [OF this assms(2,3)] have "filePath a = filePath b" by simp
  with assms(1) show ?thesis by (rule refKey_inj_same_file)
qed

subsection \<open>Shape of a result\<close>

lemma references_origin:
  assumes "analyzeSymbol P project name incl = Inr r"
  shows "\<exists>d dn. definitionOf project name = Some (d, dn) \<and>
           references r =
             firstByKey refKey
               (map (\<lambda>(sf, n). makeReference P sf n)
                  (referenceOccurrences P name incl d dn project)) \<and>
           isReferenced r = (references r \<noteq> []) \<and>
           definition' r =
             \<lparr>filePath = pathRelative P (processCwd P) (getFilePath d),
              line = getLine dn, column = getColumn dn, context' = ''global scope''\<rparr> \<and>
           type' r = (let k = kind (the (getParent dn)) in
                      if k = ClassDeclaration then Class
                      else if k = InterfaceDeclaration then Interface
                      else Function)"
  using assms
  by (auto simp: analyzeSymbol_cases firstByKey_Nil_iff split: option.splits)

lemma reference_from_occurrence:
  assumes "references r =
             firstByKey refKey
               (map (\<lambda>(sf, n). makeReference P sf n)
                  (referenceOccurrences P name incl d dn project))"
      and "ref \<in> set (references r)"
  shows "\<exists>sf n. (sf, n) \<in> set (referenceOccurrences P name incl d dn project) \<and>
                ref = makeReference P sf n"
proof -
  from assms set_firstByKey_subset
  have "ref \<in> set (map (\<lambda>(sf, n). makeReference P sf n)
                     (referenceOccurrences P name incl d dn project))"
    by fastforce
  then show ?thesis by auto
qed

lemma occurrence_has_entry:
  assumes "references r =
             firstByKey refKey
               (map (\<lambda>(sf, n). makeReference P sf n)
                  (referenceOccurrences P name incl d dn project))"
      and "(sf, n) \<in> set (referenceOccurrences P name incl d dn project)"
  shows "\<exists>ref\<in>set (references r). refKey ref = refKey (makeReference P sf n)"
proof -
  let ?xs = "map (\<lambda>(sf, n). makeReference P sf n) (referenceOccurrences P name incl d dn project)"
  from assms(2) have "makeReference P sf n \<in> set ?xs" by force
  then have "refKey (makeReference P sf n) \<in> refKey ` set (firstByKey refKey ?xs)"
    by (simp only: keys_firstByKey) (rule imageI)
  with assms(1) show ?thesis by auto
qed

subsection \<open>The reported symbol type\<close>

text \<open>
  C1, as the specification states it: the reported type is the kind of the parent of
  the first accepted occurrence, a method declaration being reported as a method. In
  the sample project the first accepted occurrence of \<^verbatim>\<open>notify\<close> has a method
  declaration as its parent, and \<open>analyzeSymbol\<close> reports a function.
\<close>

theorem method_reported_as_function:
  "firstDeclaration sampleProject ''notify'' = Some (serviceFile, notifyName) \<and>
   map_option kind (getParent notifyName) = Some MethodDeclaration \<and>
   type' (projr (analyzeSymbol (posix ''/proj'') sampleProject ''notify'' False)) = Function \<and>
   type' (projr (analyzeSymbol (posix ''/proj'') sampleProject ''notify'' False))
     \<noteq> kindOfParent MethodDeclaration"
  by code_simp

text \<open>
  C1, amended. When the first accepted occurrence of the name (in file-then-occurrence
  order, \<^verbatim>\<open>.d.ts\<close> files skipped) exists, \<open>analyzeSymbol\<close> returns a result; the
  parent of that occurrence is a class, interface, function, method or property
  declaration, and the reported type is \<^verbatim>\<open>class\<close> for a class declaration,
  \<^verbatim>\<open>interface\<close> for an interface declaration and \<^verbatim>\<open>function\<close> for a function,
  method or property declaration.
\<close>

theorem analyzeSymbol_type:
  assumes "firstDeclaration project name = Some (sourceFile, node)"
  shows "\<exists>r parent.
           analyzeSymbol P project name incl = Inr r \<and>
           getParent node = Some parent \<and> isDeclarationParent parent \<and>
           type' r =
             (if kind parent = ClassDeclaration then Class
              else if kind parent = InterfaceDeclaration then Interface
              else Function)"
proof -
  from assms have d: "definitionOf project name = Some (sourceFile, node)"
    by (simp add: definitionOf_firstDeclaration)
  from definitionOf_Some [OF d] obtain parent where
    "getParent node = Some parent" "isDeclarationParent parent"
    by (auto simp: isDeclarationOccurrence_def split: option.splits)
  with d show ?thesis
    by (simp add: analyzeSymbol_cases)
qed

theorem analyzeSymbol_type_witness:
  "firstDeclaration sampleProject ''notify'' = Some (serviceFile, notifyName) \<and>
   (\<exists>r parent.
      analyzeSymbol (posix ''/proj'') sampleProject ''notify'' False = Inr r \<and>
      getParent notifyName = Some parent \<and> isDeclarationParent parent \<and>
      type' r =
        (if kind parent = ClassDeclaration then Class
         else if kind parent = InterfaceDeclaration then Interface
         else Function))"
proof -
  have h: "firstDeclaration sampleProject ''notify'' = Some (serviceFile, notifyName)"
    by code_simp
  from h analyzeSymbol_type [OF h] show ?thesis by blast
qed

subsection \<open>Not found, or a result\<close>

text \<open>
  C3. \<open>analyzeSymbol\<close> fails with \<open>SymbolNotFound\<close> exactly when no file other than
  a \<^verbatim>\<open>.d.ts\<close> file holds an occurrence of the name that satisfies the acceptance
  rule, and returns a result exactly when one does. In a result, \<open>isReferenced\<close> says
  whether the reference list is non-empty (an empty list is a result, not an error),
  and every reference comes from an occurrence of the name other than the definition
  node, for either setting of the option.
\<close>

theorem symbol_not_found_or_result:
  "(analyzeSymbol P project name incl = Inl (SymbolNotFound name) \<longleftrightarrow>
      \<not> (\<exists>sf\<in>set project. \<not> endsWith (getFilePath sf) ''.d.ts'' \<and>
           (\<exists>n\<in>set (identifiers sf). getText n = name \<and> isDeclarationOccurrence n))) \<and>
   ((\<exists>r. analyzeSymbol P project name incl = Inr r) \<longleftrightarrow>
      (\<exists>sf\<in>set project. \<not> endsWith (getFilePath sf) ''.d.ts'' \<and>
           (\<exists>n\<in>set (identifiers sf). getText n = name \<and> isDeclarationOccurrence n))) \<and>
   (\<forall>r. analyzeSymbol P project name incl = Inr r \<longrightarrow>
      isReferenced r = (references r \<noteq> []) \<and>
      (\<exists>d dn. definitionOf project name = Some (d, dn) \<and>
         (\<forall>ref\<in>set (references r).
            \<exists>sf\<in>set project. \<exists>n\<in>set (identifiers sf).
              (sf, n) \<noteq> (d, dn) \<and> getText n = name \<and> ref = makeReference P sf n)))"
proof (intro conjI allI impI)
  show "analyzeSymbol P project name incl = Inl (SymbolNotFound name) \<longleftrightarrow>
      \<not> (\<exists>sf\<in>set project. \<not> endsWith (getFilePath sf) ''.d.ts'' \<and>
           (\<exists>n\<in>set (identifiers sf). getText n = name \<and> isDeclarationOccurrence n))"
    unfolding definitionOf_None_iff [symmetric]
    by (auto simp: analyzeSymbol_cases split: option.splits)
next
  show "(\<exists>r. analyzeSymbol P project name incl = Inr r) \<longleftrightarrow>
      (\<exists>sf\<in>set project. \<not> endsWith (getFilePath sf) ''.d.ts'' \<and>
           (\<exists>n\<in>set (identifiers sf). getText n = name \<and> isDeclarationOccurrence n))"
    using definitionOf_None_iff [of project name]
    by (auto simp: analyzeSymbol_cases split: option.splits)
next
  fix r assume r: "analyzeSymbol P project name incl = Inr r"
  from references_origin [OF r] show "isReferenced r = (references r \<noteq> [])" by blast
next
  fix r assume r: "analyzeSymbol P project name incl = Inr r"
  from references_origin [OF r] obtain d dn where
    d: "definitionOf project name = Some (d, dn)" and
    refs: "references r = firstByKey refKey (map (\<lambda>(sf, n). makeReference P sf n)
             (referenceOccurrences P name incl d dn project))"
    by blast
  from definitionOf_Some [OF d] have occ: "isDeclarationOccurrence dn" by simp
  have "\<exists>sf\<in>set project. \<exists>n\<in>set (identifiers sf).
          (sf, n) \<noteq> (d, dn) \<and> getText n = name \<and> ref = makeReference P sf n"
    if "ref \<in> set (references r)" for ref
    using reference_from_occurrence [OF refs that] definition_not_reference [OF occ, of P d]
    by (auto simp: referenceOccurrences_iff)
  with d show "\<exists>d dn. definitionOf project name = Some (d, dn) \<and>
         (\<forall>ref\<in>set (references r).
            \<exists>sf\<in>set project. \<exists>n\<in>set (identifiers sf).
              (sf, n) \<noteq> (d, dn) \<and> getText n = name \<and> ref = makeReference P sf n)"
    by blast
qed

text \<open>
  In the sample project \<^verbatim>\<open>svc\<close> is declared as a variable only and is not found;
  \<^verbatim>\<open>notify\<close> is found, with no reference by default and with one reference when
  internal references are included.
\<close>

theorem symbol_not_found_or_result_witness:
  "analyzeSymbol (posix ''/proj'') sampleProject ''svc'' False = Inl (SymbolNotFound ''svc'') \<and>
   (\<exists>r. analyzeSymbol (posix ''/proj'') sampleProject ''notify'' False = Inr r \<and>
        references r = [] \<and> \<not> isReferenced r) \<and>
   (\<exists>r. analyzeSymbol (posix ''/proj'') sampleProject ''notify'' True = Inr r \<and>
        references r = [makeReference (posix ''/proj'') serviceFile notifyCall] \<and>
        isReferenced r)"
proof -
  note t = symbol_not_found_or_result [of "posix ''/proj''" sampleProject]
  have a: "\<not> (\<exists>sf\<in>set sampleProject. \<not> endsWith (getFilePath sf) ''.d.ts'' \<and>
              (\<exists>n\<in>set (identifiers sf). getText n = ''svc'' \<and> isDeclarationOccurrence n))"
    by code_simp
  have b: "\<exists>sf\<in>set sampleProject. \<not> endsWith (getFilePath sf) ''.d.ts'' \<and>
              (\<exists>n\<in>set (identifiers sf). getText n = ''notify'' \<and> isDeclarationOccurrence n)"
    by code_simp
  have c: "references (projr (analyzeSymbol (posix ''/proj'') sampleProject ''notify'' False)) = []"
    by code_simp
  have d: "references (projr (analyzeSymbol (posix ''/proj'') sampleProject ''notify'' True)) =
             [makeReference (posix ''/proj'') serviceFile notifyCall]"
    by code_simp
  from t [of "''svc''" False] a
  have 1: "analyzeSymbol (posix ''/proj'') sampleProject ''svc'' False = Inl (SymbolNotFound ''svc'')"
    by blast
  from t [of "''notify''" False] b obtain r0 where
    r0: "analyzeSymbol (posix ''/proj'') sampleProject ''notify'' False = Inr r0" by blast
  with t [of "''notify''" False] have "isReferenced r0 = (references r0 \<noteq> [])" by blast
  with r0 c have 2: "references r0 = [] \<and> \<not> isReferenced r0" by simp
  from t [of "''notify''" True] b obtain r1 where
    r1: "analyzeSymbol (posix ''/proj'') sampleProject ''notify'' True = Inr r1" by blast
  with t [of "''notify''" True] have "isReferenced r1 = (references r1 \<noteq> [])" by blast
  with r1 d have 3: "references r1 = [makeReference (posix ''/proj'') serviceFile notifyCall] \<and>
      isReferenced r1" by simp
  from 1 r0 2 r1 3 show ?thesis by blast
qed

subsection \<open>Declarations that are not the definition\<close>

text \<open>
  C4, as the specification states it: an occurrence whose parent is a declaration of one
  of the accepted kinds never appears among the references, also when it is not the
  definition node. In the class with two implementations of \<^verbatim>\<open>area\<close> the second
  name has a method declaration as its parent, is not the definition node, and is
  returned as a reference when internal references are included.
\<close>

theorem second_declaration_is_reference:
  "definitionOf shapeProject ''area'' = Some (shapeFile, areaFirst) \<and>
   areaSecond \<in> set (identifiers shapeFile) \<and>
   areaSecond \<noteq> areaFirst \<and>
   map_option kind (getParent areaSecond) = Some MethodDeclaration \<and>
   makeReference (posix ''/proj'') shapeFile areaSecond
     \<in> set (references (projr (analyzeSymbol (posix ''/proj'') shapeProject ''area'' True)))"
  by code_simp

text \<open>
  C4, amended. The definition node itself never appears among the references. Another
  occurrence of the name whose parent is a class, interface, function, method or
  property declaration is not rejected for that: when its file is scanned and is not
  a \<^verbatim>\<open>.d.ts\<close> file, and the binding resolution links it to the definition, the
  reference list holds an entry with its key.
\<close>

theorem declaration_occurrences_kept:
  assumes "analyzeSymbol P project name incl = Inr r"
  shows "\<exists>d dn. definitionOf project name = Some (d, dn) \<and>
           (\<forall>ref\<in>set (references r).
              \<exists>sf\<in>set project. \<exists>n\<in>set (identifiers sf).
                (sf, n) \<noteq> (d, dn) \<and> getText n = name \<and> ref = makeReference P sf n) \<and>
           (\<forall>sf\<in>set project. \<forall>n\<in>set (identifiers sf).
              getText n = name \<and> isDeclarationOccurrence n \<and> (sf, n) \<noteq> (d, dn) \<and>
              (getFilePath sf \<noteq> getFilePath d \<or> incl) \<and>
              \<not> endsWith (getFilePath sf) ''.d.ts'' \<and>
              isReferenceToDefinition d dn n (getDefinitions n) \<longrightarrow>
              (\<exists>ref\<in>set (references r). refKey ref = refKey (makeReference P sf n)))"
proof -
  from references_origin [OF assms] obtain d dn where
    d: "definitionOf project name = Some (d, dn)" and
    refs: "references r = firstByKey refKey (map (\<lambda>(sf, n). makeReference P sf n)
             (referenceOccurrences P name incl d dn project))"
    by blast
  from definitionOf_Some [OF d] have occ: "isDeclarationOccurrence dn" by simp
  have 1: "\<exists>sf\<in>set project. \<exists>n\<in>set (identifiers sf).
          (sf, n) \<noteq> (d, dn) \<and> getText n = name \<and> ref = makeReference P sf n"
    if "ref \<in> set (references r)" for ref
    using reference_from_occurrence [OF refs that] definition_not_reference [OF occ, of P d]
    by (auto simp: referenceOccurrences_iff)
  have 2: "\<exists>ref\<in>set (references r). refKey ref = refKey (makeReference P sf n)"
    if "sf \<in> set project" "n \<in> set (identifiers sf)" "getText n = name"
       "isDeclarationOccurrence n" "(sf, n) \<noteq> (d, dn)"
       "getFilePath sf \<noteq> getFilePath d \<or> incl" "\<not> endsWith (getFilePath sf) ''.d.ts''"
       "isReferenceToDefinition d dn n (getDefinitions n)" for sf n
  proof -
    from that(4) obtain parent where p: "getParent n = Some parent" "isDeclarationParent parent"
      by (auto simp: isDeclarationOccurrence_def split: option.splits)
    then have "\<not> isDefinitionItself d dn sf n" "importAccepted P d sf n"
      using that(5)
      by (auto simp: isDefinitionItself_def importAccepted_def isDeclarationParent_def)
    with that have "isReference P d dn sf n"
      by (simp add: isReference_def)
    with that have "(sf, n) \<in> set (referenceOccurrences P name incl d dn project)"
      by (simp add: referenceOccurrences_iff)
    from occurrence_has_entry [OF refs this] show ?thesis .
  qed
  from d 1 2 show ?thesis by blast
qed

theorem declaration_occurrences_kept_witness:
  "analyzeSymbol (posix ''/proj'') shapeProject ''area'' True =
     Inr (projr (analyzeSymbol (posix ''/proj'') shapeProject ''area'' True)) \<and>
   definitionOf shapeProject ''area'' = Some (shapeFile, areaFirst) \<and>
   shapeFile \<in> set shapeProject \<and> areaSecond \<in> set (identifiers shapeFile) \<and>
   getText areaSecond = ''area'' \<and> isDeclarationOccurrence areaSecond \<and>
   (shapeFile, areaSecond) \<noteq> (shapeFile, areaFirst) \<and>
   \<not> endsWith (getFilePath shapeFile) ''.d.ts'' \<and>
   isReferenceToDefinition shapeFile areaFirst areaSecond (getDefinitions areaSecond) \<and>
   (\<exists>ref\<in>set (references (projr (analyzeSymbol (posix ''/proj'') shapeProject ''area'' True))).
      refKey ref = refKey (makeReference (posix ''/proj'') shapeFile areaSecond))"
proof -
  have e: "analyzeSymbol (posix ''/proj'') shapeProject ''area'' True =
     Inr (projr (analyzeSymbol (posix ''/proj'') shapeProject ''area'' True))"
    by code_simp
  have d: "definitionOf shapeProject ''area'' = Some (shapeFile, areaFirst)"
    by code_simp
  have f: "shapeFile \<in> set shapeProject" "areaSecond \<in> set (identifiers shapeFile)"
    "getText areaSecond = ''area''" "isDeclarationOccurrence areaSecond"
    "(shapeFile, areaSecond) \<noteq> (shapeFile, areaFirst)"
    "\<not> endsWith (getFilePath shapeFile) ''.d.ts''"
    "isReferenceToDefinition shapeFile areaFirst areaSecond (getDefinitions areaSecond)"
    by code_simp+
  from declaration_occurrences_kept [OF e] d
  have "\<forall>sf\<in>set shapeProject. \<forall>n\<in>set (identifiers sf).
          getText n = ''area'' \<and> isDeclarationOccurrence n \<and> (sf, n) \<noteq> (shapeFile, areaFirst) \<and>
          (getFilePath sf \<noteq> getFilePath shapeFile \<or> True) \<and>
          \<not> endsWith (getFilePath sf) ''.d.ts'' \<and>
          isReferenceToDefinition shapeFile areaFirst n (getDefinitions n) \<longrightarrow>
          (\<exists>ref\<in>set (references (projr (analyzeSymbol (posix ''/proj'') shapeProject ''area'' True))).
             refKey ref = refKey (makeReference (posix ''/proj'') sf n))"
    by auto
  with f have "\<exists>ref\<in>set (references (projr (analyzeSymbol (posix ''/proj'') shapeProject ''area'' True))).
      refKey ref = refKey (makeReference (posix ''/proj'') shapeFile areaSecond)"
    by blast
  with e d f show ?thesis by blast
qed

subsection \<open>Internal references\<close>

text \<open>
  C5. The function \<^verbatim>\<open>helper\<close> is declared and called in one file only, and the call
  resolves to the same declaration as the name in the declaration. With internal
  references included, \<open>analyzeSymbol\<close> reports the definition site and no reference:
  the declaration node starts at offset 0 and the definition node, its name, at offset
  8, so the comparison of positions of line 151 fails and the call is dropped.
\<close>

theorem internal_use_not_returned:
  "definitionOf helperProject ''helper'' = Some (helperFile, helperName) \<and>
   helperCall \<in> set (identifiers helperFile) \<and>
   getDefinitions helperCall = getDefinitions helperName \<and>
   analyzeSymbol (posix ''/proj'') helperProject ''helper'' True =
     Inr \<lparr>symbol = ''helper'', type' = Function,
          definition' =
            \<lparr>filePath = ''src/helper.ts'', line = 1, column = 10, context' = ''global scope''\<rparr>,
          references = [], isReferenced = False\<rparr>"
  by code_simp

subsection \<open>Imports\<close>



subsection \<open>Ambient files\<close>

text \<open>
  C7. In every result the definition is an occurrence of a file of the project whose
  path does not end in \<^verbatim>\<open>.d.ts\<close>, and every reference comes from an occurrence of
  the name in a file whose path does not end in \<^verbatim>\<open>.d.ts\<close>.
\<close>

theorem ambient_files_excluded:
  assumes "analyzeSymbol P project name incl = Inr r"
  shows "\<exists>d dn. definitionOf project name = Some (d, dn) \<and>
           d \<in> set project \<and> dn \<in> set (identifiers d) \<and>
           \<not> endsWith (getFilePath d) ''.d.ts'' \<and>
           definition' r =
             \<lparr>filePath = pathRelative P (processCwd P) (getFilePath d),
              line = getLine dn, column = getColumn dn, context' = ''global scope''\<rparr> \<and>
           (\<forall>ref\<in>set (references r).
              \<exists>sf\<in>set project. \<exists>n\<in>set (identifiers sf).
                \<not> endsWith (getFilePath sf) ''.d.ts'' \<and> getText n = name \<and>
                ref = makeReference P sf n)"
proof -
  from references_origin [OF assms] obtain d dn where
    d: "definitionOf project name = Some (d, dn)" and
    refs: "references r = firstByKey refKey (map (\<lambda>(sf, n). makeReference P sf n)
             (referenceOccurrences P name incl d dn project))" and
    site: "definition' r =
             \<lparr>filePath = pathRelative P (processCwd P) (getFilePath d),
              line = getLine dn, column = getColumn dn, context' = ''global scope''\<rparr>"
    by blast
  have "\<exists>sf\<in>set project. \<exists>n\<in>set (identifiers sf).
          \<not> endsWith (getFilePath sf) ''.d.ts'' \<and> getText n = name \<and> ref = makeReference P sf n"
    if "ref \<in> set (references r)" for ref
    using reference_from_occurrence [OF refs that]
    by (auto simp: referenceOccurrences_iff isReference_def)
  with d site definitionOf_Some [OF d] show ?thesis by blast
qed

text \<open>
  In the sample project the ambient file comes first and declares \<^verbatim>\<open>notify\<close>; its
  last occurrence of the name passes the binding test and is dropped for its file.
\<close>

theorem ambient_files_excluded_witness:
  "analyzeSymbol (posix ''/proj'') sampleProject ''notify'' True =
     Inr (projr (analyzeSymbol (posix ''/proj'') sampleProject ''notify'' True)) \<and>
   hd sampleProject = ambientFile \<and> endsWith (getFilePath ambientFile) ''.d.ts'' \<and>
   ambientNotify \<in> set (identifiers ambientFile) \<and>
   isReferenceToDefinition serviceFile notifyName ambientNotify (getDefinitions ambientNotify) \<and>
   (\<exists>d dn. definitionOf sampleProject ''notify'' = Some (d, dn) \<and>
      d \<in> set sampleProject \<and> dn \<in> set (identifiers d) \<and>
      \<not> endsWith (getFilePath d) ''.d.ts'' \<and>
      definition' (projr (analyzeSymbol (posix ''/proj'') sampleProject ''notify'' True)) =
        \<lparr>filePath = pathRelative (posix ''/proj'') (processCwd (posix ''/proj'')) (getFilePath d),
         line = getLine dn, column = getColumn dn, context' = ''global scope''\<rparr> \<and>
      (\<forall>ref\<in>set (references (projr (analyzeSymbol (posix ''/proj'') sampleProject ''notify'' True))).
         \<exists>sf\<in>set sampleProject. \<exists>n\<in>set (identifiers sf).
           \<not> endsWith (getFilePath sf) ''.d.ts'' \<and> getText n = ''notify'' \<and>
           ref = makeReference (posix ''/proj'') sf n))"
proof -
  have e: "analyzeSymbol (posix ''/proj'') sampleProject ''notify'' True =
     Inr (projr (analyzeSymbol (posix ''/proj'') sampleProject ''notify'' True))"
    by code_simp
  have f: "hd sampleProject = ambientFile" "endsWith (getFilePath ambientFile) ''.d.ts''"
    "ambientNotify \<in> set (identifiers ambientFile)"
    "isReferenceToDefinition serviceFile notifyName ambientNotify (getDefinitions ambientNotify)"
    by code_simp+
  from e f ambient_files_excluded [OF e] show ?thesis
    by (intro conjI) assumption+
qed

subsection \<open>Deduplication\<close>

text \<open>
  C8. The returned list is the list of the references of the visited occurrences, in
  the order of the visit, where of the references with the same key (path, line,
  column and context joined by colons) only the first is kept. So the keys of the
  list are pairwise distinct, no entry occurs twice, and every key of a visited
  reference is the key of exactly one entry. When no relative path of the project
  contains a colon, the key determines the path, line, column and context, and the
  entries are exactly the references of the visited occurrences.
\<close>

theorem references_deduplicated:
  assumes "analyzeSymbol P project name incl = Inr r"
  shows "\<exists>d dn. definitionOf project name = Some (d, dn) \<and>
           references r =
             firstByKey refKey
               (map (\<lambda>(sf, n). makeReference P sf n)
                  (referenceOccurrences P name incl d dn project)) \<and>
           distinct (map refKey (references r)) \<and>
           distinct (references r) \<and>
           refKey ` set (references r) =
             refKey ` (\<lambda>(sf, n). makeReference P sf n) `
               set (referenceOccurrences P name incl d dn project) \<and>
           ((\<forall>sf\<in>set project. CHR '':'' \<notin> set (pathRelative P (processCwd P) (getFilePath sf))) \<longrightarrow>
              set (references r) =
                (\<lambda>(sf, n). makeReference P sf n) `
                  set (referenceOccurrences P name incl d dn project))"
proof -
  let ?mk = "\<lambda>(sf, n). makeReference P sf n"
  from references_origin [OF assms] obtain d dn where
    d: "definitionOf project name = Some (d, dn)" and
    refs: "references r = firstByKey refKey (map ?mk (referenceOccurrences P name incl d dn project))"
    by blast
  let ?occ = "referenceOccurrences P name incl d dn project"
  from refs have dk: "distinct (map refKey (references r))"
    by (simp add: distinct_firstByKey)
  then have dr: "distinct (references r)"
    by (simp add: distinct_map)
  from refs have keys: "refKey ` set (references r) = refKey ` ?mk ` set ?occ"
    by (simp add: keys_firstByKey)
  have tuples: "set (references r) = ?mk ` set ?occ"
    if nc: "\<forall>sf\<in>set project. CHR '':'' \<notin> set (pathRelative P (processCwd P) (getFilePath sf))"
  proof -
    have colon: "CHR '':'' \<notin> set (filePath a)" if "a \<in> set (map ?mk ?occ)" for a
    proof -
      from that obtain sf n where "(sf, n) \<in> set ?occ" "a = makeReference P sf n" by auto
      with nc show ?thesis by (simp add: referenceOccurrences_iff makeReference_def)
    qed
    have "inj_on refKey (set (map ?mk ?occ))"
    proof (rule inj_onI)
      fix a b
      assume "a \<in> set (map ?mk ?occ)" "b \<in> set (map ?mk ?occ)" "refKey a = refKey b"
      then show "a = b" by (intro refKey_inj_no_colon colon)
    qed
    then have "set (firstByKey refKey (map ?mk ?occ)) = set (map ?mk ?occ)"
      by (rule set_firstByKey_inj)
    with refs show ?thesis by simp
  qed
  from tuples have t:
    "(\<forall>sf\<in>set project. CHR '':'' \<notin> set (pathRelative P (processCwd P) (getFilePath sf))) \<longrightarrow>
       set (references r) = ?mk ` set ?occ"
    by (rule impI)
  show ?thesis
    by (intro exI conjI) (fact d refs dk dr keys t)+
qed

text \<open>
  When \<^verbatim>\<open>main.ts\<close> is visited twice, the two visits of the \<^verbatim>\<open>new\<close> expression
  have the same key and make one entry.
\<close>

theorem references_deduplicated_witness:
  "analyzeSymbol (posix ''/proj'') repeatedProject ''NotificationService'' False =
     Inr (projr (analyzeSymbol (posix ''/proj'') repeatedProject ''NotificationService'' False)) \<and>
   referenceOccurrences (posix ''/proj'') ''NotificationService'' False serviceFile serviceName
     repeatedProject = [(mainFile, serviceNew), (mainFile, serviceNew)] \<and>
   references (projr (analyzeSymbol (posix ''/proj'') repeatedProject ''NotificationService'' False)) =
     [\<lparr>filePath = ''src/main.ts'', line = 2, column = 17, context' = ''global scope''\<rparr>] \<and>
   refKey \<lparr>filePath = ''src/main.ts'', line = 2, column = 17, context' = ''global scope''\<rparr> =
     ''src/main.ts:2:17:global scope'' \<and>
   (\<exists>d dn. definitionOf repeatedProject ''NotificationService'' = Some (d, dn) \<and>
      references (projr (analyzeSymbol (posix ''/proj'') repeatedProject ''NotificationService'' False)) =
        firstByKey refKey
          (map (\<lambda>(sf, n). makeReference (posix ''/proj'') sf n)
             (referenceOccurrences (posix ''/proj'') ''NotificationService'' False d dn repeatedProject)) \<and>
      distinct (map refKey
        (references (projr (analyzeSymbol (posix ''/proj'') repeatedProject ''NotificationService'' False)))) \<and>
      distinct
        (references (projr (analyzeSymbol (posix ''/proj'') repeatedProject ''NotificationService'' False))) \<and>
      refKey ` set
        (references (projr (analyzeSymbol (posix ''/proj'') repeatedProject ''NotificationService'' False))) =
        refKey ` (\<lambda>(sf, n). makeReference (posix ''/proj'') sf n) `
          set (referenceOccurrences (posix ''/proj'') ''NotificationService'' False d dn repeatedProject) \<and>
      ((\<forall>sf\<in>set repeatedProject.
          CHR '':'' \<notin> set (pathRelative (posix ''/proj'') (processCwd (posix ''/proj'')) (getFilePath sf))) \<longrightarrow>
       set (references (projr (analyzeSymbol (posix ''/proj'') repeatedProject ''NotificationService'' False))) =
         (\<lambda>(sf, n). makeReference (posix ''/proj'') sf n) `
           set (referenceOccurrences (posix ''/proj'') ''NotificationService'' False d dn repeatedProject)))"
proof -
  have e: "analyzeSymbol (posix ''/proj'') repeatedProject ''NotificationService'' False =
     Inr (projr (analyzeSymbol (posix ''/proj'') repeatedProject ''NotificationService'' False))"
    by code_simp
  have f: "referenceOccurrences (posix ''/proj'') ''NotificationService'' False serviceFile serviceName
     repeatedProject = [(mainFile, serviceNew), (mainFile, serviceNew)]"
    "references (projr (analyzeSymbol (posix ''/proj'') repeatedProject ''NotificationService'' False)) =
     [\<lparr>filePath = ''src/main.ts'', line = 2, column = 17, context' = ''global scope''\<rparr>]"
    "refKey \<lparr>filePath = ''src/main.ts'', line = 2, column = 17, context' = ''global scope''\<rparr> =
     ''src/main.ts:2:17:global scope''"
    by code_simp+
  from e f references_deduplicated [OF e] show ?thesis
    by (intro conjI) assumption+
qed

subsection \<open>The dead-symbol scan\<close>

lemma checkDeclarations_items:
  "checkDeclarations P project declarations st =
     checkItems P project
       (map (\<lambda>(name, declarationKind).
            (name,
             if declarationKind = InterfaceDeclaration then Some Interface
             else if declarationKind = ClassDeclaration then Some Class
             else None,
             ''global scope'')) declarations) st"
  by (induction P project declarations st rule: checkDeclarations.induct)
     (auto split: sum.splits)

lemma checkMembers_items:
  "checkMembers P project memberType cn names st =
     checkItems P project (memberItems memberType cn names) st"
  by (induction P project memberType cn names st rule: checkMembers.induct)
     (auto simp: memberItems_def split: sum.splits)

lemma checkItems_append:
  "checkItems P project (xs @ ys) st =
     (case checkItems P project xs st of
        Inl e \<Rightarrow> Inl e
      | Inr st' \<Rightarrow> checkItems P project ys st')"
  by (induction P project xs st rule: checkItems.induct) (auto split: sum.splits)

lemma checkClasses_items:
  "checkClasses P project classes st =
     checkItems P project
       (concat (map (\<lambda>classDecl.
                    memberItems Method (className classDecl) (getMethods classDecl) @
                    memberItems Property (className classDecl) (getProperties classDecl))
               classes)) st"
  by (induction classes arbitrary: st)
     (auto simp: checkMembers_items checkItems_append split: sum.splits)

lemma checkFile_items:
  "checkFile P project path =
     (case getSourceFile P project path of
        None \<Rightarrow> Inl (FileNotInWorkspace path)
      | Some sourceFile \<Rightarrow>
          (case checkItems P project (scanOrder sourceFile) ({}, []) of
             Inl e \<Rightarrow> Inl e
           | Inr st \<Rightarrow> Inr (snd st)))"
  by (auto simp: checkFile_def scanOrder_def checkDeclarations_items checkClasses_items
        checkItems_append split: option.splits sum.splits)

lemma isUnchecked_insert:
  "isUnchecked name S \<Longrightarrow>
   filter (\<lambda>item. isUnchecked (fst item) (insert (the name) S)) items =
   filter (\<lambda>item. fst item \<noteq> name) (filter (\<lambda>item. isUnchecked (fst item) S) items)"
  by (induction items) (auto simp: isUnchecked_def split: option.splits)

lemma checkItems_result:
  "checkItems P project items (S, out) = Inr (S', out') \<Longrightarrow>
   out' = out @ map (deadEntry P project)
                  (filter (isDead P project)
                     (firstByKey fst (filter (\<lambda>item. isUnchecked (fst item) S) items)))"
proof (induction P project items "(S, out)" arbitrary: S out rule: checkItems.induct)
  case (1 P project)
  then show ?case by simp
next
  case (2 P project name forced ctx items S out)
  show ?case
  proof (cases "isUnchecked name S")
    case False
    with 2 show ?thesis by simp
  next
    case True
    with "2.prems" obtain result where
      r: "analyzeSymbol P project (the name) False = Inr result"
      by (auto split: sum.splits)
    let ?out = "if \<not> isReferenced result
                then out @ [\<lparr>entryType = (case forced of None \<Rightarrow> type' result | Some t \<Rightarrow> t),
                              entryName = the name, entryContext = ctx\<rparr>]
                else out"
    from True r "2.prems" have
      rest: "checkItems P project items (insert (the name) S, ?out) = Inr (S', out')"
      by simp
    from "2.hyps"(1) [OF True r rest]
    have "out' = ?out @ map (deadEntry P project)
                  (filter (isDead P project)
                     (firstByKey fst
                        (filter (\<lambda>item. isUnchecked (fst item) (insert (the name) S)) items)))" .
    with True r show ?thesis
      by (simp add: isUnchecked_insert isDead_def deadEntry_def split: option.splits)
  qed
qed

lemma scanned_names_distinct:
  "distinct (map (\<lambda>item. the (fst item))
      (firstByKey fst (filter (\<lambda>item. isUnchecked (fst item) S) items)))"
proof -
  let ?xs = "firstByKey fst (filter (\<lambda>item. isUnchecked (fst item) S) items)"
  have "inj_on the (fst ` set ?xs)"
  proof (rule inj_onI)
    fix a b assume "a \<in> fst ` set ?xs" "b \<in> fst ` set ?xs" and e: "the a = the b"
    then have "a \<in> fst ` set (filter (\<lambda>item. isUnchecked (fst item) S) items)"
      "b \<in> fst ` set (filter (\<lambda>item. isUnchecked (fst item) S) items)"
      by (simp_all only: keys_firstByKey)
    then have "a \<noteq> None" "b \<noteq> None"
      by (auto simp: isUnchecked_def split: option.splits)
    with e show "a = b" by auto
  qed
  moreover have "distinct (map fst ?xs)" by (rule distinct_firstByKey)
  moreover have "distinct (map the (map fst ?xs)) =
      (distinct (map fst ?xs) \<and> inj_on the (set (map fst ?xs)))"
    by (rule distinct_map)
  ultimately have "distinct (map the (map fst ?xs))"
    by (simp only: set_map)
  then show ?thesis by (simp only: map_map comp_def)
qed

text \<open>
  C2. A file that holds only a top-level variable declaration without any reference,
  \<^verbatim>\<open>export const limit = 10;\<close>, is scanned by \<open>checkFile\<close>: the variable is enumerated,
  \<open>analyzeSymbol\<close> does not accept the parent of its name (a variable declaration) as
  a definition, and the scan ends with \<open>SymbolNotFound\<close> instead of an entry for the
  variable.
\<close>

theorem checkFile_variable_not_found:
  "checkFile (posix ''/proj'') [configFile] ''/proj/src/config.ts'' =
     Inl (SymbolNotFound ''limit'')"
  by code_simp

text \<open>
  C9. When \<open>checkFile\<close> returns, its entries are those of the first occurrences of
  the declared names in the scan order (top-level functions, classes, interfaces and
  variables, then the methods and the properties of each class) that have no reference:
  a name that occurs again, in any category or class, is skipped. So no two entries
  have the same name.
\<close>

theorem checkFile_first_occurrence:
  assumes "checkFile P project path = Inr entries"
  shows "\<exists>sourceFile.
           getSourceFile P project path = Some sourceFile \<and>
           entries =
             map (deadEntry P project)
               (filter (isDead P project)
                  (firstByKey fst
                     (filter (\<lambda>item. isUnchecked (fst item) {}) (scanOrder sourceFile)))) \<and>
           distinct (map entryName entries)"
proof -
  from assms obtain sourceFile st where
    sf: "getSourceFile P project path = Some sourceFile" and
    st: "checkItems P project (scanOrder sourceFile) ({}, []) = Inr st" and
    e: "entries = snd st"
    by (auto simp: checkFile_items split: option.splits sum.splits)
  let ?xs = "firstByKey fst (filter (\<lambda>item. isUnchecked (fst item) {}) (scanOrder sourceFile))"
  from st e have entries: "entries = map (deadEntry P project) (filter (isDead P project) ?xs)"
    using checkItems_result [of P project "scanOrder sourceFile" "{}" "[]" "fst st" "snd st"]
    by simp
  have "map entryName entries = map (\<lambda>item. the (fst item)) (filter (isDead P project) ?xs)"
    by (simp add: entries deadEntry_def comp_def)
  moreover have "distinct (map (\<lambda>item. the (fst item)) (filter (isDead P project) ?xs))"
    using scanned_names_distinct [of "{}" "scanOrder sourceFile"]
    by (rule distinct_map_filter)
  ultimately have "distinct (map entryName entries)" by simp
  with sf entries show ?thesis by blast
qed

text \<open>
  In \<^verbatim>\<open>task.ts\<close> the name \<^verbatim>\<open>run\<close> is declared by a function and by a method: the
  scan reports it once, as the function.
\<close>

theorem checkFile_first_occurrence_witness:
  "checkFile (posix ''/proj'') taskProject ''/proj/src/task.ts'' =
     Inr [\<lparr>entryType = Function, entryName = ''run'', entryContext = ''global scope''\<rparr>,
          \<lparr>entryType = Class, entryName = ''Task'', entryContext = ''global scope''\<rparr>,
          \<lparr>entryType = Property, entryName = ''retries'', entryContext = ''class Task''\<rparr>] \<and>
   map fst (scanOrder taskFile) = [Some ''run'', Some ''Task'', Some ''run'', Some ''retries''] \<and>
   distinct [''run'', ''Task'', ''retries'']"
proof -
  have e: "checkFile (posix ''/proj'') taskProject ''/proj/src/task.ts'' =
     Inr [\<lparr>entryType = Function, entryName = ''run'', entryContext = ''global scope''\<rparr>,
          \<lparr>entryType = Class, entryName = ''Task'', entryContext = ''global scope''\<rparr>,
          \<lparr>entryType = Property, entryName = ''retries'', entryContext = ''class Task''\<rparr>]"
    by code_simp
  have s: "map fst (scanOrder taskFile) = [Some ''run'', Some ''Task'', Some ''run'', Some ''retries'']"
    by code_simp
  from checkFile_first_occurrence [OF e]
  have "distinct (map entryName
     [\<lparr>entryType = Function, entryName = ''run'', entryContext = ''global scope''\<rparr>,
          \<lparr>entryType = Class, entryName = ''Task'', entryContext = ''global scope''\<rparr>,
          \<lparr>entryType = Property, entryName = ''retries'', entryContext = ''class Task''\<rparr>])"
    by blast
  then have "distinct [''run'', ''Task'', ''retries'']" by simp
  with e s show ?thesis by blast
qed

subsection \<open>The context of the definition\<close>

text \<open>
  C10. Whenever \<open>analyzeSymbol\<close> returns a result, the context label of its definition
  is the constant string \<^verbatim>\<open>global scope\<close>, whatever encloses the definition: also
  for a method or a property declared inside a class.
\<close>

theorem definition_context_global_scope:
  "analyzeSymbol P project symbolName incl = Inr r \<Longrightarrow>
   context' (definition' r) = ''global scope''"
  by (auto dest!: analyzeSymbol_Inr)

text \<open>
  The method \<^verbatim>\<open>notify\<close> of the sample project is declared inside the class
  \<^verbatim>\<open>NotificationService\<close>; its definition is reported in the global scope.
\<close>

theorem definition_context_global_scope_witness:
  "context' (definition' (projr (analyzeSymbol (posix ''/proj'') sampleProject ''notify'' False)))
     = ''global scope'' \<and>
   contextOf notifyName = ''class NotificationService.notify''"
proof -
  have e: "analyzeSymbol (posix ''/proj'') sampleProject ''notify'' False =
           Inr (projr (analyzeSymbol (posix ''/proj'') sampleProject ''notify'' False))"
    by code_simp
  have c: "contextOf notifyName = ''class NotificationService.notify''"
    by code_simp
  from definition_context_global_scope [OF e] c show ?thesis
    by blast
qed

end
